theory Spec2Isabelle
  imports Complex_Main
begin

section \<open>Values, errors and characters\<close>

text \<open>
  The two tools of the repository work on decoded JSON values and on the text of
  spreadsheet cells. A decoded value is what Python's \<^verbatim>\<open>json\<close> module returns:
  \<^verbatim>\<open>None\<close>, a bool, a number, a string, a list or a dict. Numbers are modelled as
  real numbers: Python's \<^verbatim>\<open>int\<close> and \<^verbatim>\<open>float\<close> are not told apart, and rounding,
  overflow and the IEEE values NaN and infinity are outside the model. A dict is an
  association list with distinct keys. Text is a list of 8-bit characters.
\<close>

datatype json =
    JNull
  | JBool bool
  | JNum real
  | JStr string
  | JArr "json list"
  | JObj "(string \<times> json) list"

text \<open>
  The exceptions the code can raise. Every handler of the source is an
  \<^verbatim>\<open>except Exception\<close>, so the kind only records where a failure comes from.
\<close>

datatype error = ValueError | TypeError | IndexError | KeyError | AttributeError | OSError

type_synonym 'a result = "error + 'a"

definition bind_result :: "'a result \<Rightarrow> ('a \<Rightarrow> 'b result) \<Rightarrow> 'b result" where
  "bind_result r f = (case r of Inl e \<Rightarrow> Inl e | Inr x \<Rightarrow> f x)"

text \<open>A list comprehension whose body can raise: the first failure wins.\<close>

fun map_result :: "('a \<Rightarrow> 'b result) \<Rightarrow> 'a list \<Rightarrow> 'b list result" where
  "map_result f [] = Inr []"
| "map_result f (x # xs) =
     (case f x of Inl e \<Rightarrow> Inl e
      | Inr y \<Rightarrow> (case map_result f xs of Inl e \<Rightarrow> Inl e | Inr ys \<Rightarrow> Inr (y # ys)))"

text \<open>
  Character classes. \<^verbatim>\<open>\d\<close> of the \<^verbatim>\<open>re\<close> module is a decimal digit and \<^verbatim>\<open>\s\<close>,
  like \<^verbatim>\<open>str.strip()\<close>, is what \<^verbatim>\<open>str.isspace\<close> accepts; below code point 256 these
  are the ten ASCII digits and the code points 9 to 13, 28 to 32, 133 and 160.
\<close>

definition is_digit :: "char \<Rightarrow> bool" where
  "is_digit c = (c \<in> set ''0123456789'')"

definition is_space :: "char \<Rightarrow> bool" where
  "is_space c = ((of_char c :: nat) \<in> set [9, 10, 11, 12, 13, 28, 29, 30, 31, 32, 133, 160])"

definition newline :: char where
  "newline = CHR 0x0A"

definition strip :: "string \<Rightarrow> string" where
  "strip s = rev (dropWhile is_space (rev (dropWhile is_space s)))"

definition upper_char :: "char \<Rightarrow> char" where
  "upper_char c =
     (if c \<in> set ''abcdefghijklmnopqrstuvwxyz'' then char_of (of_char c - (32 :: nat)) else c)"

definition lower_char :: "char \<Rightarrow> char" where
  "lower_char c =
     (if c \<in> set ''ABCDEFGHIJKLMNOPQRSTUVWXYZ'' then char_of (of_char c + (32 :: nat)) else c)"

text \<open>
  \<^verbatim>\<open>str.upper()\<close> and \<^verbatim>\<open>str.lower()\<close> on the ASCII letters. Python also maps letters
  beyond ASCII; the results are only ever compared with ASCII keywords, which none of
  those images can complete.
\<close>

definition upper :: "string \<Rightarrow> string" where
  "upper s = map upper_char s"

definition lower :: "string \<Rightarrow> string" where
  "lower s = map lower_char s"

section \<open>The regular expressions of the source\<close>

text \<open>
  Every pattern of the source is a sequence of single characters or character classes,
  each taken once or under a greedy \<^verbatim>\<open>?\<close>, \<^verbatim>\<open>*\<close> or \<^verbatim>\<open>+\<close>. \<open>rests p s\<close> lists
  what can be left of \<open>s\<close> once \<open>p\<close> has matched a prefix of it, in the order in which
  the backtracking matcher of \<^verbatim>\<open>re\<close> tries the alternatives (longest repetition first).
\<close>

datatype atom = One "char \<Rightarrow> bool" | Opt "char \<Rightarrow> bool" | Star "char \<Rightarrow> bool" | Plus "char \<Rightarrow> bool"

fun star_rests :: "(char \<Rightarrow> bool) \<Rightarrow> string \<Rightarrow> string list" where
  "star_rests p [] = [[]]"
| "star_rests p (c # cs) = (if p c then star_rests p cs @ [c # cs] else [c # cs])"

fun atom_rests :: "atom \<Rightarrow> string \<Rightarrow> string list" where
  "atom_rests (One p) [] = []"
| "atom_rests (One p) (c # cs) = (if p c then [cs] else [])"
| "atom_rests (Opt p) [] = [[]]"
| "atom_rests (Opt p) (c # cs) = (if p c then [cs, c # cs] else [c # cs])"
| "atom_rests (Star p) s = star_rests p s"
| "atom_rests (Plus p) [] = []"
| "atom_rests (Plus p) (c # cs) = (if p c then star_rests p cs else [])"

fun rests :: "atom list \<Rightarrow> string \<Rightarrow> string list" where
  "rests [] s = [s]"
| "rests (a # as) s = concat (map (rests as) (atom_rests a s))"

text \<open>\<^verbatim>\<open>$\<close> matches at the end of the text and before a newline that ends it.\<close>

definition at_end :: "string \<Rightarrow> bool" where
  "at_end r = (r = [] \<or> r = [newline])"

text \<open>\<^verbatim>\<open>re.match\<close> of a pattern \<^verbatim>\<open>^p$\<close>, as a truth value.\<close>

definition re_match_full :: "atom list \<Rightarrow> string \<Rightarrow> bool" where
  "re_match_full p s = list_ex at_end (rests p s)"

definition lit :: "string \<Rightarrow> atom list" where
  "lit w = map (\<lambda>c. One (\<lambda>d. d = c)) w"

definition any_char :: "char \<Rightarrow> bool" where
  "any_char c = (c \<noteq> newline)"

text \<open>The number token \<^verbatim>\<open>-?\d+\.?\d*\<close>.\<close>

definition num_pat :: "atom list" where
  "num_pat = [Opt (\<lambda>c. c = CHR ''-''), Plus is_digit, Opt (\<lambda>c. c = CHR ''.''), Star is_digit]"

text \<open>The text a match has consumed, given what it started from and what it left.\<close>

definition consumed :: "string \<Rightarrow> string \<Rightarrow> string" where
  "consumed s r = take (length s - length r) s"

text \<open>
  \<^verbatim>\<open>re.findall(r'-?\d+\.?\d*', s)\<close>: the first way the token matches at the leftmost
  position, then on from where that match ended. The first argument counts down the
  characters of a match already taken.
\<close>

definition match_num :: "string \<Rightarrow> string option" where
  "match_num s = (case rests num_pat s of [] \<Rightarrow> None | r # _ \<Rightarrow> Some (consumed s r))"

fun findall_num :: "string \<Rightarrow> string \<Rightarrow> string list" where
  "findall_num skip [] = []"
| "findall_num (x # skip) (c # cs) = findall_num skip cs"
| "findall_num [] (c # cs) =
     (case match_num (c # cs) of
        None \<Rightarrow> findall_num [] cs
      | Some t \<Rightarrow> t # findall_num (tl t) cs)"

text \<open>
  \<^verbatim>\<open>re.findall(r'(-?\d+\.?\d*)\s+(-?\d+\.?\d*)', s)\<close>: the two groups of every match.
\<close>

definition match_pair :: "string \<Rightarrow> (string \<times> string \<times> string) option" where
  "match_pair s =
     (case [(consumed s r1, consumed r2 r3, consumed s r3).
              r1 \<leftarrow> rests num_pat s, r2 \<leftarrow> rests [Plus is_space] r1, r3 \<leftarrow> rests num_pat r2] of
        [] \<Rightarrow> None
      | m # _ \<Rightarrow> Some m)"

fun findall_pairs :: "string \<Rightarrow> string \<Rightarrow> (string \<times> string) list" where
  "findall_pairs skip [] = []"
| "findall_pairs (x # skip) (c # cs) = findall_pairs skip cs"
| "findall_pairs [] (c # cs) =
     (case match_pair (c # cs) of
        None \<Rightarrow> findall_pairs [] cs
      | Some (lon, lat, whole) \<Rightarrow> (lon, lat) # findall_pairs (tl whole) cs)"

text \<open>
  \<^verbatim>\<open>float(token)\<close> on decimal text with an optional sign and an optional point, with
  its exact decimal value. Python's \<^verbatim>\<open>float\<close> also reads exponents, \<^verbatim>\<open>inf\<close>, \<^verbatim>\<open>nan\<close>
  and surrounding blanks; no token of the patterns above has such a form.
\<close>

definition digit_val :: "char \<Rightarrow> nat" where
  "digit_val c = of_char c - 48"

definition nat_of_digits :: "string \<Rightarrow> nat" where
  "nat_of_digits ds = foldl (\<lambda>n c. 10 * n + digit_val c) 0 ds"

definition unsigned_float :: "string \<Rightarrow> real option" where
  "unsigned_float s =
     (let ip = takeWhile is_digit s; r = dropWhile is_digit s in
      case r of
        [] \<Rightarrow> (if ip = [] then None else Some (real (nat_of_digits ip)))
      | c # fp \<Rightarrow>
          (if c = CHR ''.'' \<and> list_all is_digit fp \<and> (ip \<noteq> [] \<or> fp \<noteq> [])
           then Some (real (nat_of_digits ip) + real (nat_of_digits fp) / 10 ^ length fp)
           else None))"

fun float_py :: "string \<Rightarrow> real result" where
  "float_py [] = Inl ValueError"
| "float_py (c # cs) =
     (if c = CHR ''-'' then
        (case unsigned_float cs of None \<Rightarrow> Inl ValueError | Some v \<Rightarrow> Inr (- v))
      else if c = CHR ''+'' then
        (case unsigned_float cs of None \<Rightarrow> Inl ValueError | Some v \<Rightarrow> Inr v)
      else
        (case unsigned_float (c # cs) of None \<Rightarrow> Inl ValueError | Some v \<Rightarrow> Inr v))"

section \<open>Decoding JSON text\<close>

text \<open>
  \<^verbatim>\<open>json.loads\<close> belongs to Python's standard library, not to the repository. It
  is modelled by a scanner and a stack parser for the JSON grammar (RFC 8259), which is
  what the library implements: blanks are space, tab, line feed and carriage return,
  strings are strict (no control characters), and a key given twice keeps its last
  value. \<open>None\<close> stands for \<^verbatim>\<open>JSONDecodeError\<close>. Two things are left out, and
  on a text that holds one of them this decoder fails where Python's succeeds: the
  literals \<^verbatim>\<open>NaN\<close>, \<^verbatim>\<open>Infinity\<close> and \<^verbatim>\<open>-Infinity\<close>, which have no real
  value, and escapes \<^verbatim>\<open>\uXXXX\<close> of code points above 255.
\<close>

datatype tok =
    TLBrace | TRBrace | TLBrack | TRBrack | TColon | TComma
  | TStr string | TNum real | TTrue | TFalse | TNull

definition json_ws :: "char \<Rightarrow> bool" where
  "json_ws c = ((of_char c :: nat) \<in> set [32, 9, 10, 13])"

definition hex_val :: "char \<Rightarrow> nat option" where
  "hex_val c =
     (if is_digit c then Some (digit_val c)
      else if c \<in> set ''abcdef'' then Some (of_char c - 87)
      else if c \<in> set ''ABCDEF'' then Some (of_char c - 55)
      else None)"

definition unescape :: "char \<Rightarrow> char option" where
  "unescape e =
     (if e = CHR 0x22 \<or> e = CHR 0x5C \<or> e = CHR ''/'' then Some e
      else if e = CHR ''b'' then Some (CHR 0x08)
      else if e = CHR ''f'' then Some (CHR 0x0C)
      else if e = CHR ''n'' then Some (CHR 0x0A)
      else if e = CHR ''r'' then Some (CHR 0x0D)
      else if e = CHR ''t'' then Some (CHR 0x09)
      else None)"

definition hex4 :: "char \<Rightarrow> char \<Rightarrow> char \<Rightarrow> char \<Rightarrow> char option" where
  "hex4 a b c d =
     (case (hex_val a, hex_val b, hex_val c, hex_val d) of
        (Some h3, Some h2, Some h1, Some h0) \<Rightarrow>
          (if h3 = 0 \<and> h2 = 0 then Some (char_of (16 * h1 + h0)) else None)
      | _ \<Rightarrow> None)"

text \<open>The body of a string literal, from behind its opening quote: the decoded text
  and what follows the closing quote.\<close>

fun scan_string :: "string \<Rightarrow> (string \<times> string) option" where
  "scan_string [] = None"
| "scan_string (c # cs) =
     (if c = CHR 0x22 then Some ([], cs)
      else if c = CHR 0x5C then
        (case cs of
           [] \<Rightarrow> None
         | e # es \<Rightarrow>
             (if e = CHR ''u'' then
                (case es of
                   h3 # h2 # h1 # h0 # r \<Rightarrow>
                     (case hex4 h3 h2 h1 h0 of
                        None \<Rightarrow> None
                      | Some d \<Rightarrow> map_option (\<lambda>(v, r'). (d # v, r')) (scan_string r))
                 | _ \<Rightarrow> None)
              else
                (case unescape e of
                   None \<Rightarrow> None
                 | Some d \<Rightarrow> map_option (\<lambda>(v, r'). (d # v, r')) (scan_string es))))
      else if (of_char c :: nat) < 32 then None
      else map_option (\<lambda>(v, r'). (c # v, r')) (scan_string cs))"

text \<open>A number \<^verbatim>\<open>-?(0|[1-9]\d*)(\.\d+)?([eE][-+]?\d+)?\<close>: its value and what follows.\<close>

definition scan_exponent :: "string \<Rightarrow> (bool \<times> nat) \<times> string" where
  "scan_exponent s =
     (case s of
        [] \<Rightarrow> ((False, 0), s)
      | e # r \<Rightarrow>
          (if e = CHR ''e'' \<or> e = CHR ''E'' then
             (let neg = (case r of [] \<Rightarrow> False | g # _ \<Rightarrow> g = CHR ''-'');
                  r1 = (case r of [] \<Rightarrow> r
                        | g # r' \<Rightarrow> if g = CHR ''-'' \<or> g = CHR ''+'' then r' else r);
                  ds = takeWhile is_digit r1
              in if ds = [] then ((False, 0), s)
                 else ((neg, nat_of_digits ds), dropWhile is_digit r1))
           else ((False, 0), s)))"

definition scan_fraction :: "string \<Rightarrow> string \<times> string" where
  "scan_fraction s =
     (case s of
        p # q # r \<Rightarrow>
          (if p = CHR ''.'' \<and> is_digit q
           then (takeWhile is_digit (q # r), dropWhile is_digit (q # r))
           else ([], s))
      | _ \<Rightarrow> ([], s))"

definition scan_unsigned :: "string \<Rightarrow> (real \<times> string) option" where
  "scan_unsigned s =
     (case s of
        [] \<Rightarrow> None
      | d # ds \<Rightarrow>
          (if \<not> is_digit d then None
           else
             (let ip = (if d = CHR ''0'' then [d] else d # takeWhile is_digit ds);
                  (fp, s3) = scan_fraction (drop (length ip) s);
                  ((eneg, ex), s4) = scan_exponent s3;
                  m = real (nat_of_digits ip) + real (nat_of_digits fp) / 10 ^ length fp
              in Some (if eneg then m / 10 ^ ex else m * 10 ^ ex, s4))))"

definition scan_number :: "string \<Rightarrow> (real \<times> string) option" where
  "scan_number s =
     (case s of
        [] \<Rightarrow> None
      | c # cs \<Rightarrow>
          (if c = CHR ''-'' then map_option (\<lambda>(v, r). (- v, r)) (scan_unsigned cs)
           else scan_unsigned s))"

definition scan_token :: "string \<Rightarrow> (tok \<times> string) option" where
  "scan_token s =
     (case s of
        [] \<Rightarrow> None
      | c # cs \<Rightarrow>
          (if c = CHR ''{'' then Some (TLBrace, cs)
           else if c = CHR ''}'' then Some (TRBrace, cs)
           else if c = CHR ''['' then Some (TLBrack, cs)
           else if c = CHR '']'' then Some (TRBrack, cs)
           else if c = CHR '':'' then Some (TColon, cs)
           else if c = CHR '','' then Some (TComma, cs)
           else if c = CHR 0x22 then map_option (\<lambda>(v, r). (TStr v, r)) (scan_string cs)
           else if take 4 s = ''true'' then Some (TTrue, drop 4 s)
           else if take 5 s = ''false'' then Some (TFalse, drop 5 s)
           else if take 4 s = ''null'' then Some (TNull, drop 4 s)
           else map_option (\<lambda>(v, r). (TNum v, r)) (scan_number s)))"

text \<open>The tokens of a text; the first argument counts down the characters of a token
  already taken.\<close>

fun lex :: "string \<Rightarrow> string \<Rightarrow> tok list option" where
  "lex skip [] = Some []"
| "lex (x # skip) (c # cs) = lex skip cs"
| "lex [] (c # cs) =
     (if json_ws c then lex [] cs
      else
        (case scan_token (c # cs) of
           None \<Rightarrow> None
         | Some (t, r) \<Rightarrow> map_option ((#) t) (lex (tl (consumed (c # cs) r)) cs)))"

text \<open>
  The parser keeps the containers still open on a stack: a list with its items so far,
  a dict with its entries so far, or a dict with a key whose value is due.
\<close>

datatype frame = FArr "json list" | FObj "(string \<times> json) list" | FKey "(string \<times> json) list" string

datatype pmode = PValue | PValueOrEnd | PAfter | PKey | PKeyOrEnd | PColon | PDone json

fun dict_set :: "(string \<times> json) list \<Rightarrow> string \<Rightarrow> json \<Rightarrow> (string \<times> json) list" where
  "dict_set [] k v = [(k, v)]"
| "dict_set ((k', v') # kvs) k v =
     (if k' = k then (k, v) # kvs else (k', v') # dict_set kvs k v)"

fun push_value :: "json \<Rightarrow> frame list \<Rightarrow> (frame list \<times> pmode) option" where
  "push_value v [] = Some ([], PDone v)"
| "push_value v (FArr vs # st) = Some (FArr (vs @ [v]) # st, PAfter)"
| "push_value v (FKey kvs k # st) = Some (FObj (dict_set kvs k v) # st, PAfter)"
| "push_value v (FObj kvs # st) = None"

fun scalar :: "tok \<Rightarrow> json option" where
  "scalar (TStr s) = Some (JStr s)"
| "scalar (TNum x) = Some (JNum x)"
| "scalar TTrue = Some (JBool True)"
| "scalar TFalse = Some (JBool False)"
| "scalar TNull = Some JNull"
| "scalar _ = None"

definition parse_value :: "tok \<Rightarrow> frame list \<Rightarrow> (frame list \<times> pmode) option" where
  "parse_value t st =
     (if t = TLBrack then Some (FArr [] # st, PValueOrEnd)
      else if t = TLBrace then Some (FObj [] # st, PKeyOrEnd)
      else (case scalar t of None \<Rightarrow> None | Some v \<Rightarrow> push_value v st))"

definition parse_key :: "tok \<Rightarrow> frame list \<Rightarrow> (frame list \<times> pmode) option" where
  "parse_key t st =
     (case (t, st) of
        (TStr k, FObj kvs # st') \<Rightarrow> Some (FKey kvs k # st', PColon)
      | _ \<Rightarrow> None)"

definition close_frame :: "tok \<Rightarrow> frame list \<Rightarrow> (frame list \<times> pmode) option" where
  "close_frame t st =
     (case (t, st) of
        (TRBrack, FArr vs # st') \<Rightarrow> push_value (JArr vs) st'
      | (TRBrace, FObj kvs # st') \<Rightarrow> push_value (JObj kvs) st'
      | _ \<Rightarrow> None)"

fun parse_step :: "tok \<Rightarrow> frame list \<times> pmode \<Rightarrow> (frame list \<times> pmode) option" where
  "parse_step t (st, PValue) = parse_value t st"
| "parse_step t (st, PValueOrEnd) = (if t = TRBrack then close_frame t st else parse_value t st)"
| "parse_step t (st, PKey) = parse_key t st"
| "parse_step t (st, PKeyOrEnd) = (if t = TRBrace then close_frame t st else parse_key t st)"
| "parse_step t (st, PColon) = (if t = TColon then Some (st, PValue) else None)"
| "parse_step t (st, PAfter) =
     (if t = TComma then
        (case st of
           FArr vs # st' \<Rightarrow> Some (st, PValue)
         | FObj kvs # st' \<Rightarrow> Some (st, PKey)
         | _ \<Rightarrow> None)
      else close_frame t st)"
| "parse_step t (st, PDone v) = None"

fun parse_toks :: "tok list \<Rightarrow> frame list \<times> pmode \<Rightarrow> json option" where
  "parse_toks [] (st, m) = (case (st, m) of ([], PDone v) \<Rightarrow> Some v | _ \<Rightarrow> None)"
| "parse_toks (t # ts) s = (case parse_step t s of None \<Rightarrow> None | Some s' \<Rightarrow> parse_toks ts s')"

definition json_loads :: "string \<Rightarrow> json option" where
  "json_loads s = (case lex [] s of None \<Rightarrow> None | Some ts \<Rightarrow> parse_toks ts ([], PValue))"

section \<open>Python operations on decoded values\<close>

definition dict_get :: "(string \<times> json) list \<Rightarrow> string \<Rightarrow> json \<Rightarrow> json" where
  "dict_get d k dflt = (case map_of d k of None \<Rightarrow> dflt | Some v \<Rightarrow> v)"

text \<open>\<^verbatim>\<open>obj.get(k, default)\<close>: only a dict has the method.\<close>

fun py_get :: "json \<Rightarrow> string \<Rightarrow> json \<Rightarrow> json result" where
  "py_get (JObj d) k dflt = Inr (dict_get d k dflt)"
| "py_get _ k dflt = Inl AttributeError"

text \<open>\<^verbatim>\<open>obj.lower()\<close>: only a string has the method.\<close>

fun py_lower :: "json \<Rightarrow> string result" where
  "py_lower (JStr s) = Inr (lower s)"
| "py_lower _ = Inl AttributeError"

text \<open>\<^verbatim>\<open>for x in obj\<close>: the items of a list, the characters of a string, the keys of a
  dict; anything else is not iterable.\<close>

fun py_iter :: "json \<Rightarrow> json list result" where
  "py_iter (JArr xs) = Inr xs"
| "py_iter (JStr s) = Inr (map (\<lambda>c. JStr [c]) s)"
| "py_iter (JObj d) = Inr (map (\<lambda>kv. JStr (fst kv)) d)"
| "py_iter _ = Inl TypeError"

text \<open>\<^verbatim>\<open>obj[i]\<close> for a literal index \<open>i\<close>. The keys of a decoded dict are strings, so
  an integer is never one of them.\<close>

fun py_index :: "json \<Rightarrow> nat \<Rightarrow> json result" where
  "py_index (JArr xs) i = (if i < length xs then Inr (xs ! i) else Inl IndexError)"
| "py_index (JStr s) i = (if i < length s then Inr (JStr [s ! i]) else Inl IndexError)"
| "py_index (JObj d) i = Inl KeyError"
| "py_index _ i = Inl TypeError"

text \<open>The truth value of an object, as \<^verbatim>\<open>if not obj\<close> takes it.\<close>

fun py_truthy :: "json \<Rightarrow> bool" where
  "py_truthy JNull = False"
| "py_truthy (JBool b) = b"
| "py_truthy (JNum x) = (x \<noteq> 0)"
| "py_truthy (JStr s) = (s \<noteq> [])"
| "py_truthy (JArr xs) = (xs \<noteq> [])"
| "py_truthy (JObj d) = (d \<noteq> [])"

text \<open>\<^verbatim>\<open>isinstance(x, (int, float))\<close>; \<^verbatim>\<open>bool\<close> is a subclass of \<^verbatim>\<open>int\<close>.\<close>

fun num_of :: "json \<Rightarrow> real option" where
  "num_of (JNum x) = Some x"
| "num_of (JBool b) = Some (if b then 1 else 0)"
| "num_of _ = None"

definition is_number :: "json \<Rightarrow> bool" where
  "is_number v = (num_of v \<noteq> None)"

text \<open>
  \<^verbatim>\<open>min\<close>, \<^verbatim>\<open>max\<close> and the arithmetic that follows them are applied to the
  components of the points. With numbers they are the numeric minimum and maximum.
  With anything else they raise \<^verbatim>\<open>TypeError\<close>, at the comparison or, for a single
  value or values of one comparable kind, at the division by 2 of the centre. On an
  empty list \<^verbatim>\<open>min\<close> raises \<^verbatim>\<open>ValueError\<close>.
\<close>

definition numbers :: "json list \<Rightarrow> real list result" where
  "numbers vs = map_result (\<lambda>v. case num_of v of None \<Rightarrow> Inl TypeError | Some x \<Rightarrow> Inr x) vs"

fun py_min :: "real list \<Rightarrow> real result" where
  "py_min [] = Inl ValueError"
| "py_min (x # xs) = Inr (fold min xs x)"

fun py_max :: "real list \<Rightarrow> real result" where
  "py_max [] = Inl ValueError"
| "py_max (x # xs) = Inr (fold max xs x)"

section \<open>Walking GeoJSON coordinates\<close>

text \<open>
  The nested function \<^verbatim>\<open>extract_coordinates\<close> appends to a list of the enclosing
  scope; the model returns what one call appends. A list whose first item is a number
  is taken whole as one point; any other list is searched item by item; anything that
  is not a list adds nothing.
\<close>

fun extract_coordinates :: "json \<Rightarrow> json list" where
  "extract_coordinates (JArr xs) =
     (case xs of
        [] \<Rightarrow> []
      | x # _ \<Rightarrow> if is_number x then [JArr xs] else concat (map extract_coordinates xs))"
| "extract_coordinates _ = []"

text \<open>
  The walk over a GeoJSON dict stands three times in the source, with the same text: in
  \<^verbatim>\<open>GeometryProcessor._extract_coordinates_from_geojson\<close>, in
  \<^verbatim>\<open>GeoJsonBatchProcessor._has_valid_coordinates\<close> and at the head of
  \<^verbatim>\<open>GeoJsonBatchProcessor.calculate_bounds\<close>. It returns the points found, or raises
  where a member it calls \<^verbatim>\<open>.get\<close> or \<^verbatim>\<open>.lower\<close> on has another type.
\<close>

definition feature_coordinates :: "json \<Rightarrow> json list result" where
  "feature_coordinates feature =
     bind_result (py_get feature ''geometry'' (JObj [])) (\<lambda>geometry.
     bind_result (py_get geometry ''coordinates'' (JArr [])) (\<lambda>c.
     Inr (extract_coordinates c)))"

definition geojson_points :: "(string \<times> json) list \<Rightarrow> json list result" where
  "geojson_points geojson_data =
     bind_result (py_lower (dict_get geojson_data ''type'' (JStr []))) (\<lambda>geojson_type.
       if geojson_type = ''featurecollection'' then
         bind_result (py_iter (dict_get geojson_data ''features'' (JArr []))) (\<lambda>features.
         bind_result (map_result feature_coordinates features) (\<lambda>found.
         Inr (concat found)))
       else if geojson_type = ''feature'' then
         feature_coordinates (JObj geojson_data)
       else
         Inr (extract_coordinates (dict_get geojson_data ''coordinates'' (JArr []))))"

section \<open>The tabular tool: \<^verbatim>\<open>GeometryProcessor\<close>\<close>

subsection \<open>Sniffing the format of a cell\<close>

definition is_geojson :: "string \<Rightarrow> bool" where
  "is_geojson geom_str =
     (case json_loads geom_str of
        Some (JObj d) \<Rightarrow> map_of d ''type'' \<noteq> None
      | _ \<Rightarrow> False)"

text \<open>\<^verbatim>\<open>re.sub(r'\s+', ' ', s)\<close>; the flag says that the character before was a blank.\<close>

fun collapse_ws :: "bool \<Rightarrow> string \<Rightarrow> string" where
  "collapse_ws b [] = []"
| "collapse_ws b (c # cs) =
     (if is_space c then (if b then collapse_ws True cs else CHR '' '' # collapse_ws True cs)
      else c # collapse_ws False cs)"

definition wkt_keywords :: "string list" where
  "wkt_keywords =
     [''POINT'', ''LINESTRING'', ''POLYGON'', ''MULTIPOINT'', ''MULTILINESTRING'', ''MULTIPOLYGON'']"

text \<open>The pattern \<^verbatim>\<open>^KEYWORD\s*\(.*\)$\<close>.\<close>

definition wkt_pattern :: "string \<Rightarrow> atom list" where
  "wkt_pattern kw =
     lit kw @ [Star is_space, One (\<lambda>c. c = CHR ''(''), Star any_char, One (\<lambda>c. c = CHR '')'')]"

definition is_wkt :: "string \<Rightarrow> bool" where
  "is_wkt geom_str =
     (let cleaned_str = collapse_ws False (strip geom_str) in
      list_ex (\<lambda>kw. re_match_full (wkt_pattern kw) (upper cleaned_str)) wkt_keywords)"

definition is_json :: "string \<Rightarrow> bool" where
  "is_json geom_str = (json_loads geom_str \<noteq> None)"

text \<open>The patterns \<^verbatim>\<open>^\s*\(\s*-?\d+\.?\d*\s*,\s*-?\d+\.?\d*\s*\)\s*$\<close> and its twin with
  square brackets.\<close>

definition pair_pattern :: "char \<Rightarrow> char \<Rightarrow> atom list" where
  "pair_pattern l r =
     [Star is_space, One (\<lambda>c. c = l), Star is_space] @ num_pat @
     [Star is_space, One (\<lambda>c. c = CHR '',''), Star is_space] @ num_pat @
     [Star is_space, One (\<lambda>c. c = r), Star is_space]"

definition is_coordinate_pair :: "string \<Rightarrow> bool" where
  "is_coordinate_pair geom_str = re_match_full (pair_pattern (CHR ''('') (CHR '')'')) geom_str"

definition is_coordinate_array :: "string \<Rightarrow> bool" where
  "is_coordinate_array geom_str = re_match_full (pair_pattern (CHR ''['') (CHR '']'')) geom_str"

subsection \<open>Parsing a cell\<close>

text \<open>
  Each parser returns the dict \<^verbatim>\<open>{"coordinates": ...}\<close> and turns every exception
  of its body into a \<^verbatim>\<open>ValueError\<close>.
\<close>

definition as_value_error :: "'a result \<Rightarrow> 'a result" where
  "as_value_error r = (case r of Inl e \<Rightarrow> Inl ValueError | Inr x \<Rightarrow> Inr x)"

definition parse_geojson :: "string \<Rightarrow> (string \<times> json) list result" where
  "parse_geojson geom_str =
     as_value_error
       (case json_loads geom_str of
          None \<Rightarrow> Inl ValueError
        | Some (JObj d) \<Rightarrow>
            bind_result (geojson_points d) (\<lambda>ps. Inr [(''coordinates'', JArr ps)])
        | Some _ \<Rightarrow> Inl AttributeError)"

text \<open>One pair of tokens gives one point; a pair that \<^verbatim>\<open>float\<close> rejects is skipped.\<close>

definition wkt_point :: "string \<times> string \<Rightarrow> json list" where
  "wkt_point p =
     (case (float_py (fst p), float_py (snd p)) of
        (Inr lon, Inr lat) \<Rightarrow> [JArr [JNum lon, JNum lat]]
      | _ \<Rightarrow> [])"

definition parse_wkt :: "string \<Rightarrow> (string \<times> json) list result" where
  "parse_wkt geom_str =
     as_value_error
       (let coord_pairs = findall_pairs [] geom_str in
        if coord_pairs = [] then Inl ValueError
        else
          (let coordinates = concat (map wkt_point coord_pairs) in
           if coordinates = [] then Inl ValueError
           else Inr [(''coordinates'', JArr coordinates)]))"

definition parse_json :: "string \<Rightarrow> (string \<times> json) list result" where
  "parse_json geom_str =
     as_value_error
       (case json_loads geom_str of
          None \<Rightarrow> Inl ValueError
        | Some (JArr xs) \<Rightarrow> Inr [(''coordinates'', JArr xs)]
        | Some (JObj d) \<Rightarrow>
            bind_result (geojson_points d) (\<lambda>ps. Inr [(''coordinates'', JArr ps)])
        | Some _ \<Rightarrow> Inl ValueError)"

definition parse_coordinate_pair :: "string \<Rightarrow> (string \<times> json) list result" where
  "parse_coordinate_pair geom_str =
     as_value_error
       (case findall_num [] geom_str of
          a # b # _ \<Rightarrow>
            bind_result (float_py a) (\<lambda>lon.
            bind_result (float_py b) (\<lambda>lat.
            Inr [(''coordinates'', JArr [JArr [JNum lon, JNum lat]])]))
        | _ \<Rightarrow> Inl ValueError)"

definition parse_coordinate_array :: "string \<Rightarrow> (string \<times> json) list result" where
  "parse_coordinate_array geom_str =
     as_value_error
       (case findall_num [] geom_str of
          a # b # _ \<Rightarrow>
            bind_result (float_py a) (\<lambda>lon.
            bind_result (float_py b) (\<lambda>lat.
            Inr [(''coordinates'', JArr [JArr [JNum lon, JNum lat]])]))
        | _ \<Rightarrow> Inl ValueError)"

text \<open>
  A cell is a string or a missing value (\<open>None\<close>: pandas' NaN or \<^verbatim>\<open>None\<close>); cells
  that pandas reads as numbers are not modelled. The function returns the tag and the
  parsed dict, or raises what the parser of the sniffed format raises.
\<close>

definition with_tag :: "string \<Rightarrow> (string \<times> json) list result \<Rightarrow> (string \<times> (string \<times> json) list) result" where
  "with_tag tag r = bind_result r (\<lambda>d. Inr (tag, d))"

definition detect_geometry_format :: "string option \<Rightarrow> (string \<times> (string \<times> json) list) result" where
  "detect_geometry_format cell =
     (case cell of
        None \<Rightarrow> Inr (''empty'', [])
      | Some raw \<Rightarrow>
          if raw = [] then Inr (''empty'', [])
          else
            (let geom_str = strip raw in
             if is_geojson geom_str then with_tag ''geojson'' (parse_geojson geom_str)
             else if is_wkt geom_str then with_tag ''wkt'' (parse_wkt geom_str)
             else if is_json geom_str then with_tag ''json'' (parse_json geom_str)
             else if is_coordinate_pair geom_str then
               with_tag ''coordinate_pair'' (parse_coordinate_pair geom_str)
             else if is_coordinate_array geom_str then
               with_tag ''coordinate_array'' (parse_coordinate_array geom_str)
             else Inr (''unknown'', [])))"

subsection \<open>Bounds of a cell's coordinates\<close>

record extent =
  center :: "real \<times> real"
  width :: real
  height :: real

record bounds_info = extent +
  top_left_longitude :: real
  top_left_latitude :: real
  bottom_left_longitude :: real
  bottom_left_latitude :: real
  top_right_longitude :: real
  top_right_latitude :: real
  bottom_right_longitude :: real
  bottom_right_latitude :: real

text \<open>The list comprehension \<^verbatim>\<open>[coord[i] for coord in coordinates]\<close>.\<close>

definition axis :: "nat \<Rightarrow> json \<Rightarrow> json list result" where
  "axis i coordinates =
     bind_result (py_iter coordinates) (\<lambda>cs. map_result (\<lambda>coord. py_index coord i) cs)"

definition calculate_bounds :: "json \<Rightarrow> bounds_info result" where
  "calculate_bounds coordinates =
     (if \<not> py_truthy coordinates then Inl ValueError
      else
        bind_result (axis 0 coordinates) (\<lambda>lon_values.
        bind_result (axis 1 coordinates) (\<lambda>lat_values.
        bind_result (numbers lon_values) (\<lambda>lons.
        bind_result (numbers lat_values) (\<lambda>lats.
        bind_result (py_min lons) (\<lambda>min_lon.
        bind_result (py_max lons) (\<lambda>max_lon.
        bind_result (py_min lats) (\<lambda>min_lat.
        bind_result (py_max lats) (\<lambda>max_lat.
        Inr \<lparr> center = ((min_lon + max_lon) / 2, (min_lat + max_lat) / 2),
              width = max_lon - min_lon,
              height = max_lat - min_lat,
              top_left_longitude = min_lon,
              top_left_latitude = max_lat,
              bottom_left_longitude = min_lon,
              bottom_left_latitude = min_lat,
              top_right_longitude = max_lon,
              top_right_latitude = max_lat,
              bottom_right_longitude = max_lon,
              bottom_right_latitude = min_lat \<rparr>)))))))))"

subsection \<open>Rows and files\<close>

text \<open>
  A row is a dict from column names to cells. The loop over the rows of a sheet keeps
  two counters and sets the eight new fields of a row, which start as \<^verbatim>\<open>None\<close>.
\<close>

type_synonym row = "(string \<times> string option) list"

type_synonym new_fields = "(string \<times> real option) list"

definition new_columns :: "string list" where
  "new_columns =
     [''top_left_longitude'', ''top_left_latitude'',
      ''bottom_left_longitude'', ''bottom_left_latitude'',
      ''top_right_longitude'', ''top_right_latitude'',
      ''bottom_right_longitude'', ''bottom_right_latitude'']"

definition unset_fields :: new_fields where
  "unset_fields = map (\<lambda>col. (col, None)) new_columns"

definition set_fields :: "bounds_info \<Rightarrow> new_fields" where
  "set_fields b =
     [(''top_left_longitude'', Some (top_left_longitude b)),
      (''top_left_latitude'', Some (top_left_latitude b)),
      (''bottom_left_longitude'', Some (bottom_left_longitude b)),
      (''bottom_left_latitude'', Some (bottom_left_latitude b)),
      (''top_right_longitude'', Some (top_right_longitude b)),
      (''top_right_latitude'', Some (top_right_latitude b)),
      (''bottom_right_longitude'', Some (bottom_right_longitude b)),
      (''bottom_right_latitude'', Some (bottom_right_latitude b))]"

text \<open>What the body of the row loop does with one cell: skip it as empty, count an
  error, or fill the fields in. An exception of the body counts an error too.\<close>

datatype row_outcome = RowEmpty | RowError | RowDone bounds_info

definition process_cell :: "string option \<Rightarrow> row_outcome" where
  "process_cell geom_str =
     (case detect_geometry_format geom_str of
        Inl e \<Rightarrow> RowError
      | Inr (format_type, parsed_data) \<Rightarrow>
          if format_type = ''empty'' then RowEmpty
          else if format_type = ''unknown'' then RowError
          else
            (let coordinates = dict_get parsed_data ''coordinates'' (JArr []) in
             if \<not> py_truthy coordinates then RowError
             else
               (case calculate_bounds coordinates of
                  Inl e \<Rightarrow> RowError
                | Inr bounds \<Rightarrow> RowDone bounds)))"

definition process_row :: "string \<Rightarrow> row \<Rightarrow> row_outcome" where
  "process_row geometry_field_name r =
     (case map_of r geometry_field_name of
        None \<Rightarrow> RowError
      | Some geom_str \<Rightarrow> process_cell geom_str)"

record sheet_result =
  processed_rows :: nat
  error_rows :: nat
  out_rows :: "new_fields list"

fun count_row :: "row_outcome \<Rightarrow> sheet_result \<Rightarrow> sheet_result" where
  "count_row RowEmpty acc = acc\<lparr>out_rows := out_rows acc @ [unset_fields]\<rparr>"
| "count_row RowError acc =
     acc\<lparr>error_rows := error_rows acc + 1, out_rows := out_rows acc @ [unset_fields]\<rparr>"
| "count_row (RowDone b) acc =
     acc\<lparr>processed_rows := processed_rows acc + 1, out_rows := out_rows acc @ [set_fields b]\<rparr>"

definition process_rows :: "string \<Rightarrow> row list \<Rightarrow> sheet_result" where
  "process_rows geometry_field_name rs =
     foldl (\<lambda>acc r. count_row (process_row geometry_field_name r) acc)
       \<lparr>processed_rows = 0, error_rows = 0, out_rows = []\<rparr> rs"

text \<open>
  A file is described by what the operating system, \<^verbatim>\<open>pathlib\<close> and pandas report
  about it: its path, its base name, the stem and the suffix of the name, whether it
  exists, its size, and what reading it gives: for the tabular tool the table pandas
  reads from it (\<open>None\<close> when reading raises).
\<close>

record table =
  columns :: "string list"
  rows :: "row list"

record 'c file_info =
  fpath :: string
  fname :: string
  fstem :: string
  fsuffix :: string
  fexists :: bool
  fsize :: nat
  fcontent :: 'c

type_synonym tfile = "table option file_info"

text \<open>Why a file is refused or fails, in place of the message texts of the source.\<close>

datatype problem =
    NotFound | Unsupported string | EmptyFile | MissingField
  | NotAnObject | MissingType | InvalidType string | NoCoordinates
  | JsonError | EncodingError | ReadError
  | Failed error

text \<open>
  \<^verbatim>\<open>process_excel_file\<close> returns the name and the content of the file it writes, or
  raises. Whether a file of a given name can be written is a parameter.
\<close>

definition process_excel_file ::
  "(string \<Rightarrow> bool) \<Rightarrow> string \<Rightarrow> tfile \<Rightarrow> (string \<times> sheet_result) result" where
  "process_excel_file writable geometry_field_name f =
     (case fcontent f of
        None \<Rightarrow> Inl OSError
      | Some df \<Rightarrow>
          if geometry_field_name \<notin> set (columns df) then Inl ValueError
          else
            (let res = process_rows geometry_field_name (rows df);
                 output_filename = fstem f @ ''_with_bounds'' @ fsuffix f
             in if writable output_filename then Inr (output_filename, res) else Inl OSError))"

definition supported_excel_formats :: "string list" where
  "supported_excel_formats = [''.csv'', ''.xlsx'', ''.xls'']"

text \<open>\<open>None\<close> is the answer \<^verbatim>\<open>(True, "")\<close>; \<open>Some p\<close> is \<^verbatim>\<open>(False, message)\<close>.\<close>

definition validate_excel_file :: "string \<Rightarrow> tfile \<Rightarrow> problem option" where
  "validate_excel_file geometry_field_name f =
     (if \<not> fexists f then Some NotFound
      else if lower (fsuffix f) \<notin> set supported_excel_formats
        then Some (Unsupported (lower (fsuffix f)))
      else if fsize f = 0 then Some EmptyFile
      else
        (case fcontent f of
           None \<Rightarrow> Some ReadError
         | Some df \<Rightarrow>
             if geometry_field_name \<notin> set (columns df) then Some MissingField else None))"

subsection \<open>A run over a directory\<close>

text \<open>
  The state of a run: the three accumulators of the processor object, the files written
  and the lines printed. Of the printed lines only those that carry information are
  kept, as events. The stop report and the summary print the base name of each path in
  \<^verbatim>\<open>error_files\<close>; their events carry the path itself.
\<close>

datatype event =
    NoFiles
  | Found nat
  | Checking string
  | FormatOk
  | FormatError problem
  | Stopped
  | StoppedFile string problem
  | AllValid
  | Processing string
  | Generated string
  | FileError string problem
  | Summary nat "string list" "(string \<times> problem) list"

record 'w run_state =
  processed_count :: nat
  error_files :: "(string \<times> problem) list"
  success_files :: "string list"
  written :: "(string \<times> 'w) list"
  console :: "event list"

datatype outcome = Returned | Exit nat

definition init_state :: "'w run_state" where
  "init_state =
     \<lparr>processed_count = 0, error_files = [], success_files = [], written = [], console = []\<rparr>"

definition say :: "event list \<Rightarrow> 'w run_state \<Rightarrow> 'w run_state" where
  "say es st = st\<lparr>console := console st @ es\<rparr>"

definition print_summary :: "'w run_state \<Rightarrow> 'w run_state" where
  "print_summary st = say [Summary (processed_count st) (success_files st) (error_files st)] st"

text \<open>The report that precedes \<^verbatim>\<open>sys.exit(1)\<close>.\<close>

definition stop_report :: "'w run_state \<Rightarrow> 'w run_state" where
  "stop_report st = say (Stopped # map (\<lambda>(p, m). StoppedFile p m) (error_files st)) st"

definition excel_validate_step ::
  "string \<Rightarrow> tfile \<Rightarrow> tfile list \<times> 'w run_state \<Rightarrow> tfile list \<times> 'w run_state" where
  "excel_validate_step geometry_field_name f acc =
     (let (valid_files, st) = acc in
      case validate_excel_file geometry_field_name f of
        None \<Rightarrow> (valid_files @ [f], say [Checking (fname f), FormatOk] st)
      | Some error_msg \<Rightarrow>
          (valid_files,
           say [Checking (fname f), FormatError error_msg]
             (st\<lparr>error_files := error_files st @ [(fpath f, error_msg)]\<rparr>)))"

definition excel_process_step ::
  "(string \<Rightarrow> bool) \<Rightarrow> string \<Rightarrow> tfile \<Rightarrow> sheet_result run_state \<Rightarrow> sheet_result run_state" where
  "excel_process_step writable geometry_field_name f st =
     (case process_excel_file writable geometry_field_name f of
        Inr out \<Rightarrow>
          say [Processing (fname f), Generated (fst out)]
            (st\<lparr>written := written st @ [out],
                success_files := success_files st @ [fname f],
                processed_count := processed_count st + 1\<rparr>)
      | Inl e \<Rightarrow>
          say [Processing (fname f), FileError (fname f) (Failed e)]
            (st\<lparr>error_files := error_files st @ [(fpath f, Failed e)]\<rparr>))"

text \<open>
  \<^verbatim>\<open>GeometryProcessor.process_directory\<close>, from the list of files the scan of the
  directory has found.
\<close>

definition excel_process_directory ::
  "(string \<Rightarrow> bool) \<Rightarrow> string \<Rightarrow> tfile list \<Rightarrow> sheet_result run_state
     \<Rightarrow> outcome \<times> sheet_result run_state" where
  "excel_process_directory writable geometry_field_name excel_files st0 =
     (if excel_files = [] then (Returned, say [NoFiles] st0)
      else
        (let (valid_files, st1) =
               fold (excel_validate_step geometry_field_name) excel_files
                 ([], say [Found (length excel_files)] st0)
         in if error_files st1 \<noteq> [] then (Exit 1, stop_report st1)
            else
              (Returned,
               print_summary
                 (fold (excel_process_step writable geometry_field_name) valid_files
                    (say [AllValid] st1)))))"

section \<open>The GeoJSON tool: \<^verbatim>\<open>GeoJsonBatchProcessor\<close>\<close>

text \<open>What \<^verbatim>\<open>json.load\<close> on the opened file gives: one of the three handled
  exceptions, or the decoded value.\<close>

datatype read_result = BadJson | BadEncoding | Unreadable | Decoded json

type_synonym gfile = "read_result file_info"

definition supported_formats :: "string list" where
  "supported_formats = [''.geojson'', ''.json'']"

definition valid_types :: "string list" where
  "valid_types =
     [''point'', ''linestring'', ''polygon'', ''multipoint'', ''multilinestring'',
      ''multipolygon'', ''geometrycollection'', ''feature'', ''featurecollection'']"

definition has_valid_coordinates :: "(string \<times> json) list \<Rightarrow> bool result" where
  "has_valid_coordinates geojson_data =
     bind_result (geojson_points geojson_data) (\<lambda>coordinates. Inr (coordinates \<noteq> []))"

text \<open>
  \<open>Inr\<close> is the answer \<^verbatim>\<open>(True, "", geojson_data)\<close>, \<open>Inl p\<close> is
  \<^verbatim>\<open>(False, message, None)\<close>. An exception of the body ends in the last handler.
\<close>

definition validate_geojson_file :: "gfile \<Rightarrow> problem + (string \<times> json) list" where
  "validate_geojson_file f =
     (if \<not> fexists f then Inl NotFound
      else if lower (fsuffix f) \<notin> set supported_formats
        then Inl (Unsupported (lower (fsuffix f)))
      else if fsize f = 0 then Inl EmptyFile
      else
        (case fcontent f of
           BadJson \<Rightarrow> Inl JsonError
         | BadEncoding \<Rightarrow> Inl EncodingError
         | Unreadable \<Rightarrow> Inl ReadError
         | Decoded (JObj geojson_data) \<Rightarrow>
             if map_of geojson_data ''type'' = None then Inl MissingType
             else
               (case py_lower (dict_get geojson_data ''type'' (JStr [])) of
                  Inl e \<Rightarrow> Inl ReadError
                | Inr geojson_type \<Rightarrow>
                    if geojson_type \<notin> set valid_types then Inl (InvalidType geojson_type)
                    else
                      (case has_valid_coordinates geojson_data of
                         Inl e \<Rightarrow> Inl ReadError
                       | Inr ok \<Rightarrow> if ok then Inr geojson_data else Inl NoCoordinates))
         | Decoded _ \<Rightarrow> Inl NotAnObject))"

text \<open>The bounds dict. The four entries of \<^verbatim>\<open>corners\<close> have the keys
  \<^verbatim>\<open>(SW)\<close>, \<^verbatim>\<open>(NW)\<close>, \<^verbatim>\<open>(NE)\<close> and \<^verbatim>\<open>(SE)\<close>, each after its name in Chinese.\<close>

record geo_bounds =
  min_lon :: real
  max_lon :: real
  min_lat :: real
  max_lat :: real

record corner_points =
  south_west :: "real \<times> real"
  north_west :: "real \<times> real"
  north_east :: "real \<times> real"
  south_east :: "real \<times> real"

record geo_bounds_info = extent +
  bounds :: geo_bounds
  corners :: corner_points
  bbox :: "real list"

definition geojson_calculate_bounds :: "(string \<times> json) list \<Rightarrow> geo_bounds_info result" where
  "geojson_calculate_bounds geojson_data =
     bind_result (geojson_points geojson_data) (\<lambda>coordinates.
       if coordinates = [] then Inl ValueError
       else
         bind_result (axis 0 (JArr coordinates)) (\<lambda>lon_values.
         bind_result (axis 1 (JArr coordinates)) (\<lambda>lat_values.
         bind_result (numbers lon_values) (\<lambda>lons.
         bind_result (numbers lat_values) (\<lambda>lats.
         bind_result (py_min lons) (\<lambda>lo_lon.
         bind_result (py_max lons) (\<lambda>hi_lon.
         bind_result (py_min lats) (\<lambda>lo_lat.
         bind_result (py_max lats) (\<lambda>hi_lat.
         Inr \<lparr> center = ((lo_lon + hi_lon) / 2, (lo_lat + hi_lat) / 2),
               width = hi_lon - lo_lon,
               height = hi_lat - lo_lat,
               bounds = \<lparr>min_lon = lo_lon, max_lon = hi_lon, min_lat = lo_lat, max_lat = hi_lat\<rparr>,
               corners = \<lparr>south_west = (lo_lon, lo_lat), north_west = (lo_lon, hi_lat),
                           north_east = (hi_lon, hi_lat), south_east = (hi_lon, lo_lat)\<rparr>,
               bbox = [lo_lon, lo_lat, hi_lon, hi_lat] \<rparr>)))))))))"

text \<open>The texts in Chinese that the tool puts into names, as their UTF-8 bytes:
  "four-corner frame rectangle", "through" and "rectangle generated from the bounds data".\<close>

definition rectangle_suffix :: string where
  "rectangle_suffix = map char_of
     [229, 155, 155, 232, 167, 146, 232, 190, 185, 230, 161, 134, 231, 159, 169, 229, 189,
      162, 233, 157, 162 :: nat]"

definition description_prefix :: string where
  "description_prefix = map char_of [233, 128, 154, 232, 191, 135 :: nat]"

definition description_suffix :: string where
  "description_suffix = map char_of
     [232, 190, 185, 231, 149, 140, 230, 149, 176, 230, 141, 174, 231, 148, 159, 230, 136,
      144, 231, 154, 132, 231, 159, 169, 229, 189, 162, 233, 157, 162 :: nat]"

definition point_json :: "real \<times> real \<Rightarrow> json" where
  "point_json p = JArr [JNum (fst p), JNum (snd p)]"

definition create_rectangle_geojson :: "geo_bounds_info \<Rightarrow> string \<Rightarrow> json" where
  "create_rectangle_geojson bounds_info source_filename =
     (let cs = corners bounds_info;
          rectangle_coordinates =
            [point_json (south_west cs), point_json (north_west cs), point_json (north_east cs),
             point_json (south_east cs), point_json (south_west cs)];
          feature = JObj
            [(''type'', JStr ''Feature''),
             (''geometry'', JObj
                [(''type'', JStr ''Polygon''),
                 (''coordinates'', JArr [JArr rectangle_coordinates])]),
             (''properties'', JObj
                [(''name'', JStr (source_filename @ rectangle_suffix)),
                 (''description'',
                    JStr (description_prefix @ source_filename @ description_suffix)),
                 (''source_file'', JStr source_filename),
                 (''bounds'', JObj
                    [(''min_lon'', JNum (min_lon (bounds bounds_info))),
                     (''max_lon'', JNum (max_lon (bounds bounds_info))),
                     (''min_lat'', JNum (min_lat (bounds bounds_info))),
                     (''max_lat'', JNum (max_lat (bounds bounds_info)))]),
                 (''center'', point_json (center bounds_info)),
                 (''width'', JNum (width bounds_info)),
                 (''height'', JNum (height bounds_info)),
                 (''bbox'', JArr (map JNum (bbox bounds_info)))])]
      in JObj [(''type'', JStr ''FeatureCollection''), (''features'', JArr [feature])])"

definition geojson_validate_step ::
  "gfile \<Rightarrow> (gfile \<times> (string \<times> json) list) list \<times> 'w run_state
     \<Rightarrow> (gfile \<times> (string \<times> json) list) list \<times> 'w run_state" where
  "geojson_validate_step f acc =
     (let (valid_files, st) = acc in
      case validate_geojson_file f of
        Inr geojson_data \<Rightarrow>
          (valid_files @ [(f, geojson_data)], say [Checking (fname f), FormatOk] st)
      | Inl error_msg \<Rightarrow>
          (valid_files,
           say [Checking (fname f), FormatError error_msg]
             (st\<lparr>error_files := error_files st @ [(fpath f, error_msg)]\<rparr>)))"

text \<open>The body of the processing loop; \<^verbatim>\<open>save_rectangle_geojson\<close> raises when the
  file cannot be written.\<close>

definition geojson_process_step ::
  "(string \<Rightarrow> bool) \<Rightarrow> gfile \<times> (string \<times> json) list \<Rightarrow> json run_state \<Rightarrow> json run_state" where
  "geojson_process_step writable item st =
     (let filename = fname (fst item);
          name_without_ext = fstem (fst item);
          output_filename = name_without_ext @ rectangle_suffix @ ''.geojson''
      in case bind_result (geojson_calculate_bounds (snd item)) (\<lambda>bounds_info.
                if writable output_filename
                then Inr (create_rectangle_geojson bounds_info name_without_ext)
                else Inl OSError) of
           Inr rectangle_geojson \<Rightarrow>
             say [Processing filename, Generated output_filename]
               (st\<lparr>written := written st @ [(output_filename, rectangle_geojson)],
                   success_files := success_files st @ [filename],
                   processed_count := processed_count st + 1\<rparr>)
         | Inl e \<Rightarrow>
             say [Processing filename, FileError filename (Failed e)]
               (st\<lparr>error_files := error_files st @ [(fpath (fst item), Failed e)]\<rparr>))"

text \<open>
  \<^verbatim>\<open>GeoJsonBatchProcessor.process_directory\<close>, from the list of files the scan of the
  directory has found.
\<close>

definition geojson_process_directory ::
  "(string \<Rightarrow> bool) \<Rightarrow> gfile list \<Rightarrow> json run_state \<Rightarrow> outcome \<times> json run_state" where
  "geojson_process_directory writable geojson_files st0 =
     (if geojson_files = [] then (Returned, say [NoFiles] st0)
      else
        (let (valid_files, st1) =
               fold geojson_validate_step geojson_files
                 ([], say [Found (length geojson_files)] st0)
         in if error_files st1 \<noteq> [] then (Exit 1, stop_report st1)
            else
              (Returned,
               print_summary
                 (fold (geojson_process_step writable) valid_files (say [AllValid] st1)))))"

section \<open>Notions used in the statements\<close>

text \<open>The texts the pattern \<^verbatim>\<open>-?\d+\.?\d*\<close> describes: an optional minus sign, one or
  more digits, an optional point, digits.\<close>

definition num_token :: "string \<Rightarrow> bool" where
  "num_token t = (\<exists>sg ip dt fp. t = sg @ ip @ dt @ fp \<and> (sg = [] \<or> sg = ''-'') \<and>
      ip \<noteq> [] \<and> list_all is_digit ip \<and> (dt = [] \<or> dt = ''.'') \<and> list_all is_digit fp)"

text \<open>The point that \<^verbatim>\<open>_parse_wkt\<close> makes of one pair of tokens.\<close>

definition pair_point :: "string \<times> string \<Rightarrow> json \<Rightarrow> bool" where
  "pair_point p pt =
     (\<exists>x y. float_py (fst p) = Inr x \<and> float_py (snd p) = Inr y \<and> pt = JArr [JNum x, JNum y])"

text \<open>The GeoJSON text of Scenario A and the dict it decodes to.\<close>

definition scenario_a_text :: string where
  \<open>scenario_a_text =
     ''{"type":"Polygon","coordinates":[[[10,10],[10,20],[30,20],[30,10],[10,10]]]}''\<close>

definition scenario_a :: "(string \<times> json) list" where
  "scenario_a =
     [(''type'', JStr ''Polygon''),
      (''coordinates'', JArr [JArr [JArr [JNum 10, JNum 10], JArr [JNum 10, JNum 20],
         JArr [JNum 30, JNum 20], JArr [JNum 30, JNum 10], JArr [JNum 10, JNum 10]]])]"

text \<open>The seven tags \<^verbatim>\<open>detect_geometry_format\<close> can return.\<close>

definition format_tags :: "string list" where
  "format_tags =
     [''empty'', ''geojson'', ''wkt'', ''json'', ''coordinate_pair'', ''coordinate_array'',
      ''unknown'']"

text \<open>Shapes of a point: a list of exactly two numbers; a list that starts with a
  number; a list that starts with two numbers.\<close>

fun is_pair :: "json \<Rightarrow> bool" where
  "is_pair (JArr [a, b]) = (is_number a \<and> is_number b)"
| "is_pair _ = False"

fun starts_with_number :: "json \<Rightarrow> bool" where
  "starts_with_number (JArr (v # vs)) = is_number v"
| "starts_with_number _ = False"

fun starts_with_two_numbers :: "json \<Rightarrow> bool" where
  "starts_with_two_numbers (JArr (v # w # vs)) = (is_number v \<and> is_number w)"
| "starts_with_two_numbers _ = False"

text \<open>Two GeoJSON texts for a cell: a point with three components, and a point
  without coordinates.\<close>

definition point3d_text :: string where
  \<open>point3d_text = ''{"type":"Point","coordinates":[1,2,3]}''\<close>

definition point3d :: "(string \<times> json) list" where
  "point3d = [(''type'', JStr ''Point''), (''coordinates'', JArr [JNum 1, JNum 2, JNum 3])]"

definition no_coordinates_text :: string where
  \<open>no_coordinates_text = ''{"type":"Point"}''\<close>

text \<open>
  What the validation loop of the GeoJSON tool leaves behind for a list of files: the
  line printed as the verdict on a file, the lines printed for all files, the entries
  added to \<^verbatim>\<open>error_files\<close> and the files kept for processing.
\<close>

definition geojson_verdict :: "gfile \<Rightarrow> event" where
  "geojson_verdict f =
     (case validate_geojson_file f of Inr d \<Rightarrow> FormatOk | Inl p \<Rightarrow> FormatError p)"

definition geojson_report :: "gfile list \<Rightarrow> event list" where
  "geojson_report fs = concat (map (\<lambda>f. [Checking (fname f), geojson_verdict f]) fs)"

definition geojson_refused :: "gfile list \<Rightarrow> (string \<times> problem) list" where
  "geojson_refused fs =
     concat (map (\<lambda>f. case validate_geojson_file f of
                          Inr d \<Rightarrow> [] | Inl p \<Rightarrow> [(fpath f, p)]) fs)"

definition geojson_accepted :: "gfile list \<Rightarrow> (gfile \<times> (string \<times> json) list) list" where
  "geojson_accepted fs =
     concat (map (\<lambda>f. case validate_geojson_file f of
                          Inr d \<Rightarrow> [(f, d)] | Inl p \<Rightarrow> []) fs)"

text \<open>The lines that are printed only once validation is over.\<close>

fun after_validation :: "event \<Rightarrow> bool" where
  "after_validation (Processing n) = True"
| "after_validation (Generated n) = True"
| "after_validation (FileError n p) = True"
| "after_validation (Summary n ss es) = True"
| "after_validation _ = False"

text \<open>A readable file \<^verbatim>\<open>/data/n.geojson\<close> with a given content, and the batch of
  Scenario E: three files, the second of which holds a JSON list.\<close>

definition geojson_file :: "string \<Rightarrow> read_result \<Rightarrow> gfile" where
  "geojson_file n c =
     \<lparr>fpath = ''/data/'' @ n @ ''.geojson'', fname = n @ ''.geojson'', fstem = n,
      fsuffix = ''.geojson'', fexists = True, fsize = 1, fcontent = c\<rparr>"

definition scenario_e :: "gfile list" where
  "scenario_e =
     [geojson_file ''a'' (Decoded (JObj scenario_a)),
      geojson_file ''b'' (Decoded (JArr [])),
      geojson_file ''c'' (Decoded (JObj scenario_a))]"

text \<open>
  The same for the tabular tool: the name of the file \<^verbatim>\<open>process_excel_file\<close> writes,
  and what the validation loop leaves behind for a list of files.
\<close>

definition excel_output_name :: "tfile \<Rightarrow> string" where
  "excel_output_name f = fstem f @ ''_with_bounds'' @ fsuffix f"

definition excel_verdict :: "string \<Rightarrow> tfile \<Rightarrow> event" where
  "excel_verdict field f =
     (case validate_excel_file field f of None \<Rightarrow> FormatOk | Some p \<Rightarrow> FormatError p)"

definition excel_report :: "string \<Rightarrow> tfile list \<Rightarrow> event list" where
  "excel_report field fs = concat (map (\<lambda>f. [Checking (fname f), excel_verdict field f]) fs)"

definition excel_refused :: "string \<Rightarrow> tfile list \<Rightarrow> (string \<times> problem) list" where
  "excel_refused field fs =
     concat (map (\<lambda>f. case validate_excel_file field f of
                          None \<Rightarrow> [] | Some p \<Rightarrow> [(fpath f, p)]) fs)"

definition excel_accepted :: "string \<Rightarrow> tfile list \<Rightarrow> tfile list" where
  "excel_accepted field fs =
     concat (map (\<lambda>f. case validate_excel_file field f of
                          None \<Rightarrow> [f] | Some p \<Rightarrow> []) fs)"

text \<open>A readable file \<^verbatim>\<open>/data/n.csv\<close> with a given table, a table with the geometry
  column \<^verbatim>\<open>geom\<close> and a table without it.\<close>

definition csv_file :: "string \<Rightarrow> table \<Rightarrow> tfile" where
  "csv_file n t =
     \<lparr>fpath = ''/data/'' @ n @ ''.csv'', fname = n @ ''.csv'', fstem = n,
      fsuffix = ''.csv'', fexists = True, fsize = 1, fcontent = Some t\<rparr>"

definition sheet_with_geom :: table where
  "sheet_with_geom =
     \<lparr>columns = [''id'', ''geom''],
      rows = [[(''id'', Some ''1''), (''geom'', Some ''POINT(1 2)'')]]\<rparr>"

definition sheet_without_geom :: table where
  "sheet_without_geom = \<lparr>columns = [''id''], rows = [[(''id'', Some ''1'')]]\<rparr>"

section \<open>Basic facts\<close>

lemma bind_result_Inr [simp]: "bind_result (Inr x) f = f x"
  by (simp add: bind_result_def)

lemma bind_result_Inl [simp]: "bind_result (Inl e) f = Inl e"
  by (simp add: bind_result_def)

lemma axis_fst: "axis 0 (JArr (map point_json ps)) = Inr (map (\<lambda>p. JNum (fst p)) ps)"
  unfolding axis_def by (induction ps) (simp_all add: point_json_def)

lemma axis_snd: "axis (Suc 0) (JArr (map point_json ps)) = Inr (map (\<lambda>p. JNum (snd p)) ps)"
  unfolding axis_def by (induction ps) (simp_all add: point_json_def)

lemma numbers_JNum: "numbers (map (\<lambda>p. JNum (g p)) ps) = Inr (map g ps)"
  unfolding numbers_def by (induction ps) simp_all

lemma py_min_lower: "xs \<noteq> [] \<Longrightarrow> \<exists>m. py_min xs = Inr m \<and> (\<forall>x \<in> set xs. m \<le> x)"
proof (cases xs)
  case Nil
  assume "xs \<noteq> []"
  with Nil show ?thesis by simp
next
  case (Cons y ys)
  have "fold min ys y = Min (set (y # ys))"
    by (simp only: Min.set_eq_fold)
  then have "\<forall>x \<in> set (y # ys). fold min ys y \<le> x"
    by (metis List.finite_set Min_le)
  with Cons show ?thesis by simp
qed

lemma py_max_upper: "xs \<noteq> [] \<Longrightarrow> \<exists>m. py_max xs = Inr m \<and> (\<forall>x \<in> set xs. x \<le> m)"
proof (cases xs)
  case Nil
  assume "xs \<noteq> []"
  with Nil show ?thesis by simp
next
  case (Cons y ys)
  have "fold max ys y = Max (set (y # ys))"
    by (simp only: Max.set_eq_fold)
  then have "\<forall>x \<in> set (y # ys). x \<le> fold max ys y"
    by (metis List.finite_set Max_ge)
  with Cons show ?thesis by simp
qed

section \<open>The bounds contain the points\<close>

text \<open>
  Claim C1. For a non-empty list of points with two numeric components each, both
  bounds calculators succeed and every point lies within the bounds they return:
  between the minimal and the maximal longitude and between the minimal and the maximal
  latitude. The tabular calculator is given the points as its coordinate list; the
  GeoJSON calculator is given any GeoJSON dict whose walk finds exactly these points.
\<close>

theorem bounds_contain_points:
  assumes "ps \<noteq> []" and "geojson_points d = Inr (map point_json ps)"
  shows "(\<exists>b. calculate_bounds (JArr (map point_json ps)) = Inr b \<and>
            (\<forall>p \<in> set ps.
               bottom_left_longitude b \<le> fst p \<and> fst p \<le> bottom_right_longitude b \<and>
               top_left_longitude b \<le> fst p \<and> fst p \<le> top_right_longitude b \<and>
               bottom_left_latitude b \<le> snd p \<and> snd p \<le> top_left_latitude b \<and>
               bottom_right_latitude b \<le> snd p \<and> snd p \<le> top_right_latitude b)) \<and>
         (\<exists>g. geojson_calculate_bounds d = Inr g \<and>
            (\<forall>p \<in> set ps.
               min_lon (bounds g) \<le> fst p \<and> fst p \<le> max_lon (bounds g) \<and>
               min_lat (bounds g) \<le> snd p \<and> snd p \<le> max_lat (bounds g)))"
proof -
  from assms(1) have ne: "map fst ps \<noteq> []" "map snd ps \<noteq> []" by simp_all
  obtain lo_x where lo_x: "py_min (map fst ps) = Inr lo_x" "\<forall>x \<in> set (map fst ps). lo_x \<le> x"
    using py_min_lower [OF ne(1)] by blast
  obtain hi_x where hi_x: "py_max (map fst ps) = Inr hi_x" "\<forall>x \<in> set (map fst ps). x \<le> hi_x"
    using py_max_upper [OF ne(1)] by blast
  obtain lo_y where lo_y: "py_min (map snd ps) = Inr lo_y" "\<forall>y \<in> set (map snd ps). lo_y \<le> y"
    using py_min_lower [OF ne(2)] by blast
  obtain hi_y where hi_y: "py_max (map snd ps) = Inr hi_y" "\<forall>y \<in> set (map snd ps). y \<le> hi_y"
    using py_max_upper [OF ne(2)] by blast
  have inside: "\<forall>p \<in> set ps. lo_x \<le> fst p \<and> fst p \<le> hi_x \<and> lo_y \<le> snd p \<and> snd p \<le> hi_y"
    using lo_x(2) hi_x(2) lo_y(2) hi_y(2) by simp
  have tab: "\<exists>b. calculate_bounds (JArr (map point_json ps)) = Inr b \<and>
            (\<forall>p \<in> set ps.
               bottom_left_longitude b \<le> fst p \<and> fst p \<le> bottom_right_longitude b \<and>
               top_left_longitude b \<le> fst p \<and> fst p \<le> top_right_longitude b \<and>
               bottom_left_latitude b \<le> snd p \<and> snd p \<le> top_left_latitude b \<and>
               bottom_right_latitude b \<le> snd p \<and> snd p \<le> top_right_latitude b)"
    using assms(1) inside
    by (simp add: calculate_bounds_def axis_fst axis_snd numbers_JNum
        lo_x(1) hi_x(1) lo_y(1) hi_y(1))
  have geo: "\<exists>g. geojson_calculate_bounds d = Inr g \<and>
            (\<forall>p \<in> set ps.
               min_lon (bounds g) \<le> fst p \<and> fst p \<le> max_lon (bounds g) \<and>
               min_lat (bounds g) \<le> snd p \<and> snd p \<le> max_lat (bounds g))"
    using assms inside
    by (simp add: geojson_calculate_bounds_def axis_fst axis_snd numbers_JNum
        lo_x(1) hi_x(1) lo_y(1) hi_y(1))
  from tab geo show ?thesis by blast
qed

theorem bounds_contain_points_witness:
  "[(0, 0), (2, 1 :: real)] \<noteq> [] \<and>
   geojson_points [(''type'', JStr ''MultiPoint''),
      (''coordinates'', JArr [JArr [JNum 0, JNum 0], JArr [JNum 2, JNum 1]])]
     = Inr (map point_json [(0, 0), (2, 1)]) \<and>
   (\<exists>g. geojson_calculate_bounds [(''type'', JStr ''MultiPoint''),
      (''coordinates'', JArr [JArr [JNum 0, JNum 0], JArr [JNum 2, JNum 1]])] = Inr g \<and>
      (\<forall>p \<in> set [(0, 0), (2, 1)].
         min_lon (bounds g) \<le> fst p \<and> fst p \<le> max_lon (bounds g) \<and>
         min_lat (bounds g) \<le> snd p \<and> snd p \<le> max_lat (bounds g)))"
proof -
  have h1: "[(0, 0), (2, 1 :: real)] \<noteq> []" by simp
  have h2: "geojson_points [(''type'', JStr ''MultiPoint''),
      (''coordinates'', JArr [JArr [JNum 0, JNum 0], JArr [JNum 2, JNum 1]])]
     = Inr (map point_json [(0, 0), (2, 1)])"
    by (simp add: geojson_points_def dict_get_def lower_def lower_char_def point_json_def
        is_number_def)
  from bounds_contain_points [OF h1 h2] h1 h2 show ?thesis by blast
qed

section \<open>Tokens of the number pattern\<close>

lemma star_rests_split:
  "r \<in> set (star_rests p s) \<Longrightarrow> \<exists>t. s = t @ r \<and> list_all p t"
proof (induction s)
  case Nil
  then show ?case by simp
next
  case (Cons c cs)
  show ?case
  proof (cases "r = c # cs")
    case True
    then show ?thesis by simp
  next
    case False
    with Cons.prems have pc: "p c" and "r \<in> set (star_rests p cs)"
      by (auto split: if_splits)
    then obtain t where "cs = t @ r" "list_all p t" using Cons.IH by blast
    with pc have "c # cs = (c # t) @ r \<and> list_all p (c # t)" by simp
    then show ?thesis by blast
  qed
qed

lemma opt_rests_split:
  "r \<in> set (atom_rests (Opt p) s) \<Longrightarrow> r = s \<or> (\<exists>c. s = c # r \<and> p c)"
  by (cases s) (auto split: if_splits)

lemma plus_rests_split:
  "r \<in> set (atom_rests (Plus p) s) \<Longrightarrow> \<exists>c cs. s = c # cs \<and> p c \<and> r \<in> set (star_rests p cs)"
  by (cases s) (auto split: if_splits)

lemma rests_Cons_iff:
  "r \<in> set (rests (a # as) s) \<longleftrightarrow> (\<exists>r1 \<in> set (atom_rests a s). r \<in> set (rests as r1))"
  by simp

lemma rests_Nil_iff: "r \<in> set (rests [] s) \<longleftrightarrow> r = s"
  by simp



lemma num_tokenI:
  "sg = [] \<or> sg = ''-'' \<Longrightarrow> ip \<noteq> [] \<Longrightarrow> list_all is_digit ip \<Longrightarrow> dt = [] \<or> dt = ''.'' \<Longrightarrow>
   list_all is_digit fp \<Longrightarrow> num_token (sg @ ip @ dt @ fp)"
  unfolding num_token_def by blast

lemma num_pat_split:
  assumes "r \<in> set (rests num_pat s)"
  shows "\<exists>t. s = t @ r \<and> num_token t"
proof -
  from assms obtain r1 where
    r1: "r1 \<in> set (atom_rests (Opt (\<lambda>c. c = CHR ''-'')) s)" and
    a1: "r \<in> set (rests [Plus is_digit, Opt (\<lambda>c. c = CHR ''.''), Star is_digit] r1)"
    unfolding num_pat_def rests_Cons_iff by blast
  from a1 obtain r2 where
    r2: "r2 \<in> set (atom_rests (Plus is_digit) r1)" and
    a2: "r \<in> set (rests [Opt (\<lambda>c. c = CHR ''.''), Star is_digit] r2)"
    unfolding rests_Cons_iff by blast
  from a2 obtain r3 where
    r3: "r3 \<in> set (atom_rests (Opt (\<lambda>c. c = CHR ''.'')) r2)" and
    a3: "r \<in> set (rests [Star is_digit] r3)"
    unfolding rests_Cons_iff by blast
  from a3 have r4: "r \<in> set (star_rests is_digit r3)"
    unfolding rests_Cons_iff rests_Nil_iff by simp
  from opt_rests_split [OF r1] obtain sg where sg: "s = sg @ r1" "sg = [] \<or> sg = ''-''"
    by fastforce
  from plus_rests_split [OF r2] obtain d ds where
    r1': "r1 = d # ds" "is_digit d" "r2 \<in> set (star_rests is_digit ds)"
    by blast
  from star_rests_split [OF r1'(3)] obtain t1 where t1: "ds = t1 @ r2" "list_all is_digit t1"
    by blast
  from opt_rests_split [OF r3] obtain dt where dt: "r2 = dt @ r3" "dt = [] \<or> dt = ''.''"
    by fastforce
  from star_rests_split [OF r4] obtain fp where fp: "r3 = fp @ r" "list_all is_digit fp"
    by blast
  have eq: "s = (sg @ (d # t1) @ dt @ fp) @ r"
    using sg(1) r1'(1) t1(1) dt(1) fp(1) by simp
  have "list_all is_digit (d # t1)" using r1'(2) t1(2) by simp
  then have "num_token (sg @ (d # t1) @ dt @ fp)"
    using sg(2) dt(2) fp(2) by (intro num_tokenI) simp_all
  with eq show ?thesis by blast
qed


lemma consumed_append: "consumed (t @ r) r = t"
  by (simp add: consumed_def)

lemma digit_not_sign: "is_digit c \<Longrightarrow> c \<noteq> CHR ''-'' \<and> c \<noteq> CHR ''+'' \<and> c \<noteq> CHR ''.''"
  by (auto simp: is_digit_def)

lemma unsigned_float_digits:
  assumes "ip \<noteq> []" "list_all is_digit ip" "dt = [] \<or> dt = ''.''" "list_all is_digit fp"
  shows "\<exists>v. unsigned_float (ip @ dt @ fp) = Some v"
proof (cases "dt = []")
  case True
  from assms(2,4) have alld: "\<forall>x \<in> set (ip @ fp). is_digit x"
    by (auto simp: list_all_iff)
  then have tw: "takeWhile is_digit (ip @ [] @ fp) = ip @ fp"
    and dw: "dropWhile is_digit (ip @ [] @ fp) = []"
    by (simp_all only: append_Nil takeWhile_eq_all_conv dropWhile_eq_Nil_conv)
  show ?thesis
    unfolding True unsigned_float_def Let_def tw dw using assms(1) by simp
next
  case False
  with assms(3) have dt: "dt = ''.''" by simp
  have nd: "\<not> is_digit (CHR ''.'')" by (simp add: is_digit_def)
  from assms(2) nd have tw: "takeWhile is_digit (ip @ dt @ fp) = ip"
    unfolding dt by (simp add: list_all_iff)
  from assms(2) nd have dw: "dropWhile is_digit (ip @ dt @ fp) = CHR ''.'' # fp"
    unfolding dt by (simp add: list_all_iff)
  show ?thesis
    unfolding unsigned_float_def Let_def tw dw using assms(1,4) by simp
qed

lemma float_py_token:
  assumes "num_token t"
  shows "\<exists>v. float_py t = Inr v"
proof -
  from assms obtain sg ip dt fp where
    t: "t = sg @ ip @ dt @ fp" and sg: "sg = [] \<or> sg = ''-''" and
    ip: "ip \<noteq> []" "list_all is_digit ip" and dt: "dt = [] \<or> dt = ''.''" and
    fp: "list_all is_digit fp"
    unfolding num_token_def by blast
  from unsigned_float_digits [OF ip dt fp] obtain v where v: "unsigned_float (ip @ dt @ fp) = Some v"
    by blast
  show ?thesis
  proof (cases "sg = []")
    case True
    from ip obtain d ds where ipc: "ip = d # ds" "is_digit d" by (cases ip) auto
    with digit_not_sign have ns: "d \<noteq> CHR ''-''" "d \<noteq> CHR ''+''" by blast+
    from v have "unsigned_float (d # ds @ dt @ fp) = Some v" unfolding ipc(1) by simp
    with ns have "float_py (d # ds @ dt @ fp) = Inr v" by simp
    then show ?thesis unfolding t True ipc(1) by simp
  next
    case False
    with sg have m: "sg = ''-''" by simp
    from v have "float_py (CHR ''-'' # ip @ dt @ fp) = Inr (- v)" by simp
    then show ?thesis unfolding t m by simp
  qed
qed


lemma match_pair_tokens:
  assumes "match_pair s = Some (a, b, w)"
  shows "num_token a \<and> num_token b"
proof -
  define ms where "ms = [(consumed s r1, consumed r2 r3, consumed s r3).
              r1 \<leftarrow> rests num_pat s, r2 \<leftarrow> rests [Plus is_space] r1, r3 \<leftarrow> rests num_pat r2]"
  from assms have "(case ms of [] \<Rightarrow> None | m # _ \<Rightarrow> Some m) = Some (a, b, w)"
    unfolding match_pair_def ms_def .
  then obtain more where "ms = (a, b, w) # more"
    by (cases ms) simp_all
  then have "(a, b, w) \<in> set ms"
    by simp
  then obtain r1 r2 r3 where
    r1: "r1 \<in> set (rests num_pat s)" and r3: "r3 \<in> set (rests num_pat r2)" and
    ab: "a = consumed s r1" "b = consumed r2 r3"
    unfolding ms_def by (auto simp del: rests.simps)
  from num_pat_split [OF r1] obtain t1 where t1: "s = t1 @ r1" "num_token t1" by blast
  from num_pat_split [OF r3] obtain t2 where t2: "r2 = t2 @ r3" "num_token t2" by blast
  have "a = t1" unfolding ab(1) t1(1) by (rule consumed_append)
  moreover have "b = t2" unfolding ab(2) t2(1) by (rule consumed_append)
  ultimately show ?thesis using t1(2) t2(2) by simp
qed

lemma findall_pairs_tokens:
  "p \<in> set (findall_pairs skip s) \<Longrightarrow> num_token (fst p) \<and> num_token (snd p)"
proof (induction skip s rule: findall_pairs.induct)
  case (1 skip)
  then show ?case by simp
next
  case (2 x skip c cs)
  then show ?case by simp
next
  case (3 c cs)
  show ?case
  proof (cases "match_pair (c # cs)")
    case None
    with 3 show ?thesis by simp
  next
    case (Some m)
    obtain a b w where m: "m = (a, b, w)" by (cases m)
    from Some m match_pair_tokens have tok: "num_token a \<and> num_token b" by blast
    from "3.prems" Some m have "p = (a, b) \<or> p \<in> set (findall_pairs (tl w) cs)" by simp
    then show ?thesis
    proof
      assume "p = (a, b)"
      with tok show ?thesis by simp
    next
      assume "p \<in> set (findall_pairs (tl w) cs)"
      with "3.IH"(2) Some m show ?thesis by simp
    qed
  qed
qed



lemma wkt_points_of_tokens:
  "list_all (\<lambda>p. num_token (fst p) \<and> num_token (snd p)) ps \<Longrightarrow>
   list_all2 pair_point ps (concat (map wkt_point ps))"
proof (induction ps)
  case Nil
  then show ?case by simp
next
  case (Cons p ps)
  from Cons.prems have "num_token (fst p)" "num_token (snd p)" by simp_all
  then obtain x y where xy: "float_py (fst p) = Inr x" "float_py (snd p) = Inr y"
    using float_py_token by blast
  then have one: "wkt_point p = [JArr [JNum x, JNum y]]"
    by (simp add: wkt_point_def)
  from xy have "pair_point p (JArr [JNum x, JNum y])"
    unfolding pair_point_def by blast
  moreover from Cons have "list_all2 pair_point ps (concat (map wkt_point ps))" by simp
  ultimately show ?case by (simp add: one)
qed

lemma parse_wkt_cases:
  "(findall_pairs [] s = [] \<and> parse_wkt s = Inl ValueError) \<or>
   (findall_pairs [] s \<noteq> [] \<and>
    (\<exists>pts. parse_wkt s = Inr [(''coordinates'', JArr pts)] \<and>
           list_all2 pair_point (findall_pairs [] s) pts))"
proof (cases "findall_pairs [] s = []")
  case True
  then show ?thesis by (simp add: parse_wkt_def as_value_error_def)
next
  case False
  have "list_all (\<lambda>p. num_token (fst p) \<and> num_token (snd p)) (findall_pairs [] s)"
    unfolding list_all_iff using findall_pairs_tokens by blast
  then have l2: "list_all2 pair_point (findall_pairs [] s) (concat (map wkt_point (findall_pairs [] s)))"
    by (rule wkt_points_of_tokens)
  with False have ne: "concat (map wkt_point (findall_pairs [] s)) \<noteq> []"
    using list_all2_lengthD by fastforce
  from False ne have "parse_wkt s = Inr [(''coordinates'', JArr (concat (map wkt_point (findall_pairs [] s))))]"
    by (simp add: parse_wkt_def as_value_error_def Let_def)
  with False l2 show ?thesis by blast
qed

section \<open>WKT text\<close>

text \<open>
  Claim C8. \<^verbatim>\<open>_parse_wkt\<close> scans the whole text for the matches of the pattern
  "number, blanks, number", as \<^verbatim>\<open>re.findall\<close> reports them, whatever parentheses stand
  around them. It fails exactly when there is no match; otherwise every match gives one
  point, in order, with the values of its two tokens. For the text
  \<^verbatim>\<open>MULTIPOLYGON(((1 1, 2 1, 2 2, 1 2, 1 1)))\<close> the format is sniffed as WKT, five
  points are extracted, and the bounds are longitude 1 to 2 and latitude 1 to 2.
\<close>

theorem wkt_extracts_every_pair:
  "((findall_pairs [] s = [] \<and> parse_wkt s = Inl ValueError) \<or>
    (findall_pairs [] s \<noteq> [] \<and>
     (\<exists>pts. parse_wkt s = Inr [(''coordinates'', JArr pts)] \<and>
            list_all2 pair_point (findall_pairs [] s) pts))) \<and>
   detect_geometry_format (Some ''MULTIPOLYGON(((1 1, 2 1, 2 2, 1 2, 1 1)))'') =
     Inr (''wkt'', [(''coordinates'',
        JArr [JArr [JNum 1, JNum 1], JArr [JNum 2, JNum 1], JArr [JNum 2, JNum 2],
              JArr [JNum 1, JNum 2], JArr [JNum 1, JNum 1]])]) \<and>
   calculate_bounds (JArr [JArr [JNum 1, JNum 1], JArr [JNum 2, JNum 1], JArr [JNum 2, JNum 2],
              JArr [JNum 1, JNum 2], JArr [JNum 1, JNum 1]]) =
     Inr \<lparr>center = (3 / 2, 3 / 2), width = 1, height = 1,
       top_left_longitude = 1, top_left_latitude = 2,
       bottom_left_longitude = 1, bottom_left_latitude = 1,
       top_right_longitude = 2, top_right_latitude = 2,
       bottom_right_longitude = 2, bottom_right_latitude = 1\<rparr>"
proof (intro conjI)
  show "(findall_pairs [] s = [] \<and> parse_wkt s = Inl ValueError) \<or>
    (findall_pairs [] s \<noteq> [] \<and>
     (\<exists>pts. parse_wkt s = Inr [(''coordinates'', JArr pts)] \<and>
            list_all2 pair_point (findall_pairs [] s) pts))"
    by (rule parse_wkt_cases)
  show "detect_geometry_format (Some ''MULTIPOLYGON(((1 1, 2 1, 2 2, 1 2, 1 1)))'') =
     Inr (''wkt'', [(''coordinates'',
        JArr [JArr [JNum 1, JNum 1], JArr [JNum 2, JNum 1], JArr [JNum 2, JNum 2],
              JArr [JNum 1, JNum 2], JArr [JNum 1, JNum 1]])])"
    by code_simp
  show "calculate_bounds (JArr [JArr [JNum 1, JNum 1], JArr [JNum 2, JNum 1], JArr [JNum 2, JNum 2],
              JArr [JNum 1, JNum 2], JArr [JNum 1, JNum 1]]) =
     Inr \<lparr>center = (3 / 2, 3 / 2), width = 1, height = 1,
       top_left_longitude = 1, top_left_latitude = 2,
       bottom_left_longitude = 1, bottom_left_latitude = 1,
       top_right_longitude = 2, top_right_latitude = 2,
       bottom_right_longitude = 2, bottom_right_latitude = 1\<rparr>"
    by code_simp
qed

section \<open>Scenario A: a polygon through the GeoJSON tool\<close>

text \<open>
  Claim C7. The text of Scenario A decodes to a Polygon dict; its bounds have the bbox
  [10, 10, 30, 20] and the centre (20, 15); and the document built from them, for any
  source name, is a FeatureCollection with one Feature whose geometry is a Polygon with
  the single ring [10,10], [10,20], [30,20], [30,10], [10,10]: south-west, north-west,
  north-east, south-east and south-west again.
\<close>

theorem scenario_a_rectangle:
  "json_loads scenario_a_text = Some (JObj scenario_a) \<and>
   (\<exists>b. geojson_calculate_bounds scenario_a = Inr b \<and>
      bbox b = [10, 10, 30, 20] \<and> center b = (20, 15) \<and>
      (\<exists>properties. create_rectangle_geojson b source_filename =
         JObj [(''type'', JStr ''FeatureCollection''),
               (''features'', JArr [JObj
                  [(''type'', JStr ''Feature''),
                   (''geometry'', JObj
                      [(''type'', JStr ''Polygon''),
                       (''coordinates'', JArr [JArr
                          [JArr [JNum 10, JNum 10], JArr [JNum 10, JNum 20],
                           JArr [JNum 30, JNum 20], JArr [JNum 30, JNum 10],
                           JArr [JNum 10, JNum 10]]])]),
                   (''properties'', properties)]])]))"
proof -
  have parse: "json_loads scenario_a_text = Some (JObj scenario_a)"
    by code_simp
  have bounds_a: "geojson_calculate_bounds scenario_a =
      Inr \<lparr>center = (20, 15), width = 20, height = 10,
        bounds = \<lparr>min_lon = 10, max_lon = 30, min_lat = 10, max_lat = 20\<rparr>,
        corners = \<lparr>south_west = (10, 10), north_west = (10, 20),
                    north_east = (30, 20), south_east = (30, 10)\<rparr>,
        bbox = [10, 10, 30, 20]\<rparr>"
    by code_simp
  show ?thesis
    unfolding bounds_a using parse
    by (simp add: create_rectangle_geojson_def point_json_def Let_def)
qed

section \<open>Scenario C: a bare JSON array in a cell\<close>

text \<open>
  Claim C2 says that the cell \<^verbatim>\<open>[102.5,31.2]\<close> is processed and fills the eight fields
  with 102.5 and 31.2. The code does not do that. The text is valid JSON, so it is
  sniffed as \<^verbatim>\<open>json\<close> before the coordinate-array pattern is tried, and
  \<^verbatim>\<open>_parse_json\<close> hands the flat list of two numbers on as the coordinate list.
  \<^verbatim>\<open>calculate_bounds\<close> then indexes a number and raises \<^verbatim>\<open>TypeError\<close>; the row is
  counted as an error and its eight fields stay unset. The sibling parser
  \<^verbatim>\<open>_parse_coordinate_array\<close>, which the detection order keeps this text away from,
  gives the single point the claim expects.
\<close>

theorem json_array_cell_fails:
  "detect_geometry_format (Some ''[102.5,31.2]'') =
     Inr (''json'', [(''coordinates'', JArr [JNum 102.5, JNum 31.2])]) \<and>
   calculate_bounds (JArr [JNum 102.5, JNum 31.2]) = Inl TypeError \<and>
   process_cell (Some ''[102.5,31.2]'') = RowError \<and>
   process_rows ''geom'' [[(''geom'', Some ''[102.5,31.2]'')]] =
     \<lparr>processed_rows = 0, error_rows = 1, out_rows = [unset_fields]\<rparr> \<and>
   parse_coordinate_array ''[102.5,31.2]'' =
     Inr [(''coordinates'', JArr [JArr [JNum 102.5, JNum 31.2]])]"
proof (intro conjI)
  show "detect_geometry_format (Some ''[102.5,31.2]'') =
     Inr (''json'', [(''coordinates'', JArr [JNum 102.5, JNum 31.2])])"
    by code_simp
  show "calculate_bounds (JArr [JNum 102.5, JNum 31.2]) = Inl TypeError"
    by code_simp
  show "process_cell (Some ''[102.5,31.2]'') = RowError"
    by code_simp
  show "process_rows ''geom'' [[(''geom'', Some ''[102.5,31.2]'')]] =
     \<lparr>processed_rows = 0, error_rows = 1, out_rows = [unset_fields]\<rparr>"
    by code_simp
  show "parse_coordinate_array ''[102.5,31.2]'' =
     Inr [(''coordinates'', JArr [JArr [JNum 102.5, JNum 31.2]])]"
    by code_simp
qed

section \<open>Detection and its failures\<close>

text \<open>
  Claim C3 says that format detection never raises. \<^verbatim>\<open>detect_geometry_format\<close> runs
  the parser of the format it has sniffed, and that parser can raise: the text
  \<^verbatim>\<open>POINT()\<close> is sniffed as WKT and holds no pair of numbers.
\<close>

theorem detect_raises_counterexample:
  "detect_geometry_format (Some ''POINT()'') = Inl ValueError"
  by code_simp

lemma as_value_error_cases:
  "(\<exists>d. as_value_error r = Inr d) \<or> as_value_error r = Inl ValueError"
  by (cases r) (simp_all add: as_value_error_def)

lemma with_tag_cases:
  assumes "(\<exists>d. r = Inr d) \<or> r = Inl ValueError"
  shows "(\<exists>d. with_tag t r = Inr (t, d)) \<or> with_tag t r = Inl ValueError"
  using assms by (auto simp: with_tag_def)

lemma tag_result:
  assumes "(\<exists>d. r = Inr (t, d)) \<or> r = Inl ValueError" and "t \<in> set format_tags"
  shows "(\<exists>t d. r = Inr (t, d) \<and> t \<in> set format_tags) \<or> r = Inl ValueError"
  using assms by blast

lemma tags_known:
  "''empty'' \<in> set format_tags" "''geojson'' \<in> set format_tags" "''wkt'' \<in> set format_tags"
  "''json'' \<in> set format_tags" "''coordinate_pair'' \<in> set format_tags"
  "''coordinate_array'' \<in> set format_tags" "''unknown'' \<in> set format_tags"
  by (simp_all add: format_tags_def)

lemma detect_branches:
  "detect_geometry_format None = Inr (''empty'', [])"
  "detect_geometry_format (Some []) = Inr (''empty'', [])"
  "raw \<noteq> [] \<Longrightarrow> is_geojson (strip raw) \<Longrightarrow>
     detect_geometry_format (Some raw) = with_tag ''geojson'' (parse_geojson (strip raw))"
  "raw \<noteq> [] \<Longrightarrow> \<not> is_geojson (strip raw) \<Longrightarrow> is_wkt (strip raw) \<Longrightarrow>
     detect_geometry_format (Some raw) = with_tag ''wkt'' (parse_wkt (strip raw))"
  "raw \<noteq> [] \<Longrightarrow> \<not> is_geojson (strip raw) \<Longrightarrow> \<not> is_wkt (strip raw) \<Longrightarrow> is_json (strip raw) \<Longrightarrow>
     detect_geometry_format (Some raw) = with_tag ''json'' (parse_json (strip raw))"
  "raw \<noteq> [] \<Longrightarrow> \<not> is_geojson (strip raw) \<Longrightarrow> \<not> is_wkt (strip raw) \<Longrightarrow> \<not> is_json (strip raw) \<Longrightarrow>
     is_coordinate_pair (strip raw) \<Longrightarrow>
     detect_geometry_format (Some raw) =
       with_tag ''coordinate_pair'' (parse_coordinate_pair (strip raw))"
  "raw \<noteq> [] \<Longrightarrow> \<not> is_geojson (strip raw) \<Longrightarrow> \<not> is_wkt (strip raw) \<Longrightarrow> \<not> is_json (strip raw) \<Longrightarrow>
     \<not> is_coordinate_pair (strip raw) \<Longrightarrow> is_coordinate_array (strip raw) \<Longrightarrow>
     detect_geometry_format (Some raw) =
       with_tag ''coordinate_array'' (parse_coordinate_array (strip raw))"
  "raw \<noteq> [] \<Longrightarrow> \<not> is_geojson (strip raw) \<Longrightarrow> \<not> is_wkt (strip raw) \<Longrightarrow> \<not> is_json (strip raw) \<Longrightarrow>
     \<not> is_coordinate_pair (strip raw) \<Longrightarrow> \<not> is_coordinate_array (strip raw) \<Longrightarrow>
     detect_geometry_format (Some raw) = Inr (''unknown'', [])"
  by (simp_all add: detect_geometry_format_def Let_def)

text \<open>
  Claim C3, amended. For every cell, a string or a missing value,
  \<^verbatim>\<open>detect_geometry_format\<close> either returns one of the seven tags or raises
  \<^verbatim>\<open>ValueError\<close>, the error of the parser of the sniffed format; for a missing value
  and for the empty string it returns the tag \<^verbatim>\<open>empty\<close>.
\<close>

theorem detect_tag_or_value_error:
  "((\<exists>t d. detect_geometry_format cell = Inr (t, d) \<and> t \<in> set format_tags) \<or>
    detect_geometry_format cell = Inl ValueError) \<and>
   detect_geometry_format None = Inr (''empty'', []) \<and>
   detect_geometry_format (Some []) = Inr (''empty'', [])"
proof (intro conjI)
  have tg: "(\<exists>d. with_tag ''geojson'' (parse_geojson s) = Inr (''geojson'', d)) \<or>
      with_tag ''geojson'' (parse_geojson s) = Inl ValueError" for s
    unfolding parse_geojson_def by (rule with_tag_cases [OF as_value_error_cases])
  have tw: "(\<exists>d. with_tag ''wkt'' (parse_wkt s) = Inr (''wkt'', d)) \<or>
      with_tag ''wkt'' (parse_wkt s) = Inl ValueError" for s
    unfolding parse_wkt_def by (rule with_tag_cases [OF as_value_error_cases])
  have tj: "(\<exists>d. with_tag ''json'' (parse_json s) = Inr (''json'', d)) \<or>
      with_tag ''json'' (parse_json s) = Inl ValueError" for s
    unfolding parse_json_def by (rule with_tag_cases [OF as_value_error_cases])
  have tp: "(\<exists>d. with_tag ''coordinate_pair'' (parse_coordinate_pair s) = Inr (''coordinate_pair'', d)) \<or>
      with_tag ''coordinate_pair'' (parse_coordinate_pair s) = Inl ValueError" for s
    unfolding parse_coordinate_pair_def by (rule with_tag_cases [OF as_value_error_cases])
  have ta: "(\<exists>d. with_tag ''coordinate_array'' (parse_coordinate_array s) = Inr (''coordinate_array'', d)) \<or>
      with_tag ''coordinate_array'' (parse_coordinate_array s) = Inl ValueError" for s
    unfolding parse_coordinate_array_def by (rule with_tag_cases [OF as_value_error_cases])
  show "(\<exists>t d. detect_geometry_format cell = Inr (t, d) \<and> t \<in> set format_tags) \<or>
    detect_geometry_format cell = Inl ValueError"
  proof (cases cell)
    case None
    show ?thesis unfolding None detect_branches(1)
      by (rule tag_result [OF _ tags_known(1)]) simp
  next
    case (Some raw)
    show ?thesis
    proof (cases "raw = []")
      case True
      show ?thesis unfolding Some True detect_branches(2)
        by (rule tag_result [OF _ tags_known(1)]) simp
    next
      case False
      consider (g) "is_geojson (strip raw)"
        | (w) "\<not> is_geojson (strip raw)" "is_wkt (strip raw)"
        | (j) "\<not> is_geojson (strip raw)" "\<not> is_wkt (strip raw)" "is_json (strip raw)"
        | (p) "\<not> is_geojson (strip raw)" "\<not> is_wkt (strip raw)" "\<not> is_json (strip raw)"
              "is_coordinate_pair (strip raw)"
        | (a) "\<not> is_geojson (strip raw)" "\<not> is_wkt (strip raw)" "\<not> is_json (strip raw)"
              "\<not> is_coordinate_pair (strip raw)" "is_coordinate_array (strip raw)"
        | (u) "\<not> is_geojson (strip raw)" "\<not> is_wkt (strip raw)" "\<not> is_json (strip raw)"
              "\<not> is_coordinate_pair (strip raw)" "\<not> is_coordinate_array (strip raw)"
        by blast
      then show ?thesis
      proof cases
        case g
        show ?thesis unfolding Some detect_branches(3) [OF False g]
          by (rule tag_result [OF tg tags_known(2)])
      next
        case w
        show ?thesis unfolding Some detect_branches(4) [OF False w]
          by (rule tag_result [OF tw tags_known(3)])
      next
        case j
        show ?thesis unfolding Some detect_branches(5) [OF False j]
          by (rule tag_result [OF tj tags_known(4)])
      next
        case p
        show ?thesis unfolding Some detect_branches(6) [OF False p]
          by (rule tag_result [OF tp tags_known(5)])
      next
        case a
        show ?thesis unfolding Some detect_branches(7) [OF False a]
          by (rule tag_result [OF ta tags_known(6)])
      next
        case u
        show ?thesis unfolding Some detect_branches(8) [OF False u]
          by (rule tag_result [OF _ tags_known(7)]) simp
      qed
    qed
  qed
  show "detect_geometry_format None = Inr (''empty'', [])"
    by (rule detect_branches(1))
  show "detect_geometry_format (Some []) = Inr (''empty'', [])"
    by (rule detect_branches(2))
qed

section \<open>Cells of blanks\<close>

lemma strip_spaces:
  assumes "list_all is_space s"
  shows "strip s = []"
proof -
  from assms have dw: "dropWhile is_space s = []"
    unfolding dropWhile_eq_Nil_conv list_all_iff .
  show ?thesis unfolding strip_def dw by simp
qed

lemma empty_text_sniffs:
  "\<not> is_geojson []" "\<not> is_wkt []" "\<not> is_json []"
  "\<not> is_coordinate_pair []" "\<not> is_coordinate_array []"
  by code_simp+

text \<open>
  Claim C10. A cell that is a non-empty string of whitespace characters only is not
  empty for the test at the head of \<^verbatim>\<open>detect_geometry_format\<close>, which comes before
  the text is stripped; stripped, it matches no format and gets the tag
  \<^verbatim>\<open>unknown\<close>. The row loop counts such a row as an error and leaves its fields
  unset; it does not skip it as empty.
\<close>

theorem blank_cell_is_row_error:
  assumes "s \<noteq> []" and "list_all is_space s"
  shows "detect_geometry_format (Some s) = Inr (''unknown'', []) \<and>
         process_cell (Some s) = RowError \<and>
         process_cell (Some s) \<noteq> RowEmpty \<and>
         count_row (process_cell (Some s)) acc =
           acc\<lparr>error_rows := error_rows acc + 1, out_rows := out_rows acc @ [unset_fields]\<rparr>"
proof -
  from assms(2) have st: "strip s = []" by (rule strip_spaces)
  have d: "detect_geometry_format (Some s) = Inr (''unknown'', [])"
    by (rule detect_branches(8) [OF assms(1)]) (simp_all only: st empty_text_sniffs not_False_eq_True)
  then have c: "process_cell (Some s) = RowError"
    by (simp add: process_cell_def)
  from d c show ?thesis by simp
qed

theorem blank_cell_is_row_error_witness:
  "[CHR '' '', CHR 0x09] \<noteq> [] \<and> list_all is_space [CHR '' '', CHR 0x09] \<and>
   detect_geometry_format (Some [CHR '' '', CHR 0x09]) = Inr (''unknown'', []) \<and>
   process_cell (Some [CHR '' '', CHR 0x09]) = RowError"
proof -
  have h1: "[CHR '' '', CHR 0x09] \<noteq> []" by simp
  have h2: "list_all is_space [CHR '' '', CHR 0x09]" by (simp add: is_space_def)
  from blank_cell_is_row_error [OF h1 h2] h1 h2 show ?thesis by blast
qed

section \<open>The bounds of the corners\<close>

lemma min_max_of_points:
  assumes "ps \<noteq> []"
  shows "\<exists>lo hi. py_min (map f ps) = Inr lo \<and> py_max (map f ps) = Inr hi \<and> (lo :: real) \<le> hi"
proof -
  from assms have ne: "map f ps \<noteq> []" by simp
  obtain lo where lo: "py_min (map f ps) = Inr lo" "\<forall>x \<in> set (map f ps). lo \<le> x"
    using py_min_lower [OF ne] by blast
  obtain hi where hi: "py_max (map f ps) = Inr hi" "\<forall>x \<in> set (map f ps). x \<le> hi"
    using py_max_upper [OF ne] by blast
  from assms obtain p where "p \<in> set ps" by (cases ps) auto
  with lo(2) hi(2) have "lo \<le> f p" "f p \<le> hi" by simp_all
  then have "lo \<le> hi" by simp
  with lo(1) hi(1) show ?thesis by blast
qed

text \<open>
  Claim C9. For a non-empty list of points, the bounds calculator applied to the four
  corners of the bounds it has computed (south-west, north-west, north-east,
  south-east) returns the same bounds again: the same minima and maxima, and with them
  the same centre, width and height. This holds for the tabular calculator, given the
  four corners as its coordinate list, and for the GeoJSON calculator, given them as a
  MultiPoint.
\<close>

theorem bounds_of_corners:
  assumes "ps \<noteq> []" and "geojson_points d = Inr (map point_json ps)"
  shows "(\<exists>b. calculate_bounds (JArr (map point_json ps)) = Inr b \<and>
            calculate_bounds (JArr (map point_json
              [(bottom_left_longitude b, bottom_left_latitude b),
               (top_left_longitude b, top_left_latitude b),
               (top_right_longitude b, top_right_latitude b),
               (bottom_right_longitude b, bottom_right_latitude b)])) = Inr b) \<and>
         (\<exists>g. geojson_calculate_bounds d = Inr g \<and>
            geojson_calculate_bounds
              [(''type'', JStr ''MultiPoint''),
               (''coordinates'', JArr (map point_json
                  [south_west (corners g), north_west (corners g),
                   north_east (corners g), south_east (corners g)]))] = Inr g)"
proof -
  obtain lo_x hi_x where x: "py_min (map fst ps) = Inr lo_x" "py_max (map fst ps) = Inr hi_x"
    "lo_x \<le> hi_x"
    using min_max_of_points [OF assms(1), of fst] by blast
  obtain lo_y hi_y where y: "py_min (map snd ps) = Inr lo_y" "py_max (map snd ps) = Inr hi_y"
    "lo_y \<le> hi_y"
    using min_max_of_points [OF assms(1), of snd] by blast
  let ?cs = "[(lo_x, lo_y), (lo_x, hi_y), (hi_x, hi_y), (hi_x, lo_y)]"
  let ?b = "\<lparr>center = ((lo_x + hi_x) / 2, (lo_y + hi_y) / 2),
              width = hi_x - lo_x, height = hi_y - lo_y,
              top_left_longitude = lo_x, top_left_latitude = hi_y,
              bottom_left_longitude = lo_x, bottom_left_latitude = lo_y,
              top_right_longitude = hi_x, top_right_latitude = hi_y,
              bottom_right_longitude = hi_x, bottom_right_latitude = lo_y\<rparr>"
  let ?g = "\<lparr>center = ((lo_x + hi_x) / 2, (lo_y + hi_y) / 2),
              width = hi_x - lo_x, height = hi_y - lo_y,
              bounds = \<lparr>min_lon = lo_x, max_lon = hi_x, min_lat = lo_y, max_lat = hi_y\<rparr>,
              corners = \<lparr>south_west = (lo_x, lo_y), north_west = (lo_x, hi_y),
                          north_east = (hi_x, hi_y), south_east = (hi_x, lo_y)\<rparr>,
              bbox = [lo_x, lo_y, hi_x, hi_y]\<rparr>"
  have b1: "calculate_bounds (JArr (map point_json ps)) = Inr ?b"
    using assms(1)
    by (simp add: calculate_bounds_def axis_fst axis_snd numbers_JNum x(1,2) y(1,2))
  have b2: "calculate_bounds (JArr (map point_json ?cs)) = Inr ?b"
    unfolding calculate_bounds_def
    using x(3) y(3) by (auto simp: axis_def point_json_def numbers_def min_def max_def)
  have g1: "geojson_calculate_bounds d = Inr ?g"
    using assms
    by (simp add: geojson_calculate_bounds_def axis_fst axis_snd numbers_JNum x(1,2) y(1,2))
  have pts: "geojson_points [(''type'', JStr ''MultiPoint''),
               (''coordinates'', JArr (map point_json ?cs))] = Inr (map point_json ?cs)"
    by (simp add: geojson_points_def dict_get_def lower_def lower_char_def point_json_def
        is_number_def)
  have g2: "geojson_calculate_bounds [(''type'', JStr ''MultiPoint''),
               (''coordinates'', JArr (map point_json ?cs))] = Inr ?g"
    unfolding geojson_calculate_bounds_def pts
    using x(3) y(3) by (auto simp: axis_def point_json_def numbers_def min_def max_def)
  from b1 b2 have tab: "\<exists>b. calculate_bounds (JArr (map point_json ps)) = Inr b \<and>
            calculate_bounds (JArr (map point_json
              [(bottom_left_longitude b, bottom_left_latitude b),
               (top_left_longitude b, top_left_latitude b),
               (top_right_longitude b, top_right_latitude b),
               (bottom_right_longitude b, bottom_right_latitude b)])) = Inr b"
    by simp
  from g1 g2 have geo: "\<exists>g. geojson_calculate_bounds d = Inr g \<and>
            geojson_calculate_bounds
              [(''type'', JStr ''MultiPoint''),
               (''coordinates'', JArr (map point_json
                  [south_west (corners g), north_west (corners g),
                   north_east (corners g), south_east (corners g)]))] = Inr g"
    by simp
  from tab geo show ?thesis by blast
qed

theorem bounds_of_corners_witness:
  "[(0, 0), (2, 1 :: real)] \<noteq> [] \<and>
   geojson_points [(''type'', JStr ''LineString''),
      (''coordinates'', JArr [JArr [JNum 0, JNum 0], JArr [JNum 2, JNum 1]])]
     = Inr (map point_json [(0, 0), (2, 1)]) \<and>
   (\<exists>b. calculate_bounds (JArr (map point_json [(0, 0), (2, 1)])) = Inr b \<and>
            calculate_bounds (JArr (map point_json
              [(bottom_left_longitude b, bottom_left_latitude b),
               (top_left_longitude b, top_left_latitude b),
               (top_right_longitude b, top_right_latitude b),
               (bottom_right_longitude b, bottom_right_latitude b)])) = Inr b)"
proof -
  have h1: "[(0, 0), (2, 1 :: real)] \<noteq> []" by simp
  have h2: "geojson_points [(''type'', JStr ''LineString''),
      (''coordinates'', JArr [JArr [JNum 0, JNum 0], JArr [JNum 2, JNum 1]])]
     = Inr (map point_json [(0, 0), (2, 1)])"
    by (simp add: geojson_points_def dict_get_def lower_def lower_char_def point_json_def
        is_number_def)
  from bounds_of_corners [OF h1 h2] h1 h2 show ?thesis by blast
qed

section \<open>The points a parser returns\<close>

lemma extract_coordinates_points: "list_all starts_with_number (extract_coordinates v)"
proof (induction v rule: extract_coordinates.induct)
  case (1 xs)
  show ?case
  proof (cases xs)
    case Nil
    then show ?thesis by simp
  next
    case (Cons x rest)
    show ?thesis
    proof (cases "is_number x")
      case True
      with Cons show ?thesis by simp
    next
      case False
      with Cons 1 have "\<forall>y \<in> set xs. list_all starts_with_number (extract_coordinates y)"
        by blast
      with Cons False show ?thesis
        by (auto simp: list_all_iff)
    qed
  qed
qed simp_all

lemma map_result_all:
  assumes "map_result f xs = Inr ys" and "\<And>x y. f x = Inr y \<Longrightarrow> P y"
  shows "list_all P ys"
  using assms(1)
proof (induction xs arbitrary: ys)
  case Nil
  then show ?case by simp
next
  case (Cons x xs)
  from Cons.prems obtain y ys' where
    fx: "f x = Inr y" and rest: "map_result f xs = Inr ys'" and ys: "ys = y # ys'"
    by (auto split: sum.splits)
  from fx have "P y" by (rule assms(2))
  moreover from rest have "list_all P ys'" by (rule Cons.IH)
  ultimately show ?case by (simp add: ys)
qed

lemma feature_coordinates_points:
  "feature_coordinates f = Inr pts \<Longrightarrow> list_all starts_with_number pts"
  using extract_coordinates_points
  by (auto simp: feature_coordinates_def bind_result_def split: sum.splits)

lemma geojson_points_shape:
  assumes "geojson_points g = Inr pts"
  shows "list_all starts_with_number pts"
proof -
  obtain ty where ty: "py_lower (dict_get g ''type'' (JStr [])) = Inr ty"
    using assms by (cases "py_lower (dict_get g ''type'' (JStr []))")
      (simp_all add: geojson_points_def)
  show ?thesis
  proof (cases "ty = ''featurecollection''")
    case True
    with assms ty obtain features found where
      "map_result feature_coordinates features = Inr found" and pts: "pts = concat found"
      by (auto simp: geojson_points_def bind_result_def split: sum.splits)
    then have "list_all (list_all starts_with_number) found"
      using map_result_all [of feature_coordinates features found "list_all starts_with_number"]
        feature_coordinates_points by blast
    then show ?thesis unfolding pts by (induction found) simp_all
  next
    case False
    show ?thesis
    proof (cases "ty = ''feature''")
      case True
      with assms ty False have "feature_coordinates (JObj g) = Inr pts"
        by (simp add: geojson_points_def)
      then show ?thesis by (rule feature_coordinates_points)
    next
      case nf: False
      with assms ty False have "pts = extract_coordinates (dict_get g ''coordinates'' (JArr []))"
        by (simp add: geojson_points_def)
      then show ?thesis using extract_coordinates_points by simp
    qed
  qed
qed


lemma map_result_nth:
  assumes "map_result f xs = Inr ys"
  shows "length ys = length xs \<and> (\<forall>i < length xs. f (xs ! i) = Inr (ys ! i))"
  using assms
proof (induction xs arbitrary: ys)
  case Nil
  then show ?case by simp
next
  case (Cons x xs)
  from Cons.prems obtain y ys' where
    fx: "f x = Inr y" and rest: "map_result f xs = Inr ys'" and ys: "ys = y # ys'"
    by (auto split: sum.splits)
  from Cons.IH [OF rest] fx show ?case
    unfolding ys by (auto simp: nth_Cons split: nat.splits)
qed

lemma two_numbers_by_index:
  assumes "py_index pt 0 = Inr v" "is_number v" "py_index pt (Suc 0) = Inr w" "is_number w"
  shows "starts_with_two_numbers pt"
proof (cases pt)
  case (JArr xs)
  with assms(3) have "Suc 0 < length xs" by (simp split: if_splits)
  then obtain a b rest where xs: "xs = a # b # rest"
    by (cases xs; cases "tl xs") auto
  with JArr assms show ?thesis by simp
next
  case (JStr t)
  with assms(1,2) show ?thesis by (auto simp: is_number_def split: if_splits)
qed (use assms(1) in simp_all)

lemma numbers_all: "numbers vs = Inr xs \<Longrightarrow> list_all is_number vs"
proof (induction vs arbitrary: xs)
  case Nil
  then show ?case by simp
next
  case (Cons v vs)
  then show ?case
    by (auto simp: numbers_def is_number_def split: option.splits sum.splits)
qed

lemma geojson_bounds_points:
  assumes "geojson_calculate_bounds g = Inr b"
  shows "\<exists>pts. geojson_points g = Inr pts \<and> pts \<noteq> [] \<and> list_all starts_with_two_numbers pts"
proof -
  from assms obtain pts where pts: "geojson_points g = Inr pts"
    by (cases "geojson_points g") (simp_all add: geojson_calculate_bounds_def)
  from assms pts have ne: "pts \<noteq> []"
    by (auto simp: geojson_calculate_bounds_def)
  from assms pts ne obtain lon_values where lo: "axis 0 (JArr pts) = Inr lon_values"
    by (cases "axis 0 (JArr pts)") (simp_all add: geojson_calculate_bounds_def)
  from assms pts ne lo obtain lat_values where la: "axis (Suc 0) (JArr pts) = Inr lat_values"
    by (cases "axis (Suc 0) (JArr pts)") (simp_all add: geojson_calculate_bounds_def)
  from assms pts ne lo la obtain lons where nlo: "numbers lon_values = Inr lons"
    by (cases "numbers lon_values") (simp_all add: geojson_calculate_bounds_def)
  from assms pts ne lo la nlo obtain lats where nla: "numbers lat_values = Inr lats"
    by (cases "numbers lat_values") (simp_all add: geojson_calculate_bounds_def)
  from lo have i0: "length lon_values = length pts"
    "\<forall>i < length pts. py_index (pts ! i) 0 = Inr (lon_values ! i)"
    using map_result_nth [of "\<lambda>coord. py_index coord 0" pts lon_values]
    by (simp_all add: axis_def)
  from la have i1: "length lat_values = length pts"
    "\<forall>i < length pts. py_index (pts ! i) (Suc 0) = Inr (lat_values ! i)"
    using map_result_nth [of "\<lambda>coord. py_index coord (Suc 0)" pts lat_values]
    by (simp_all add: axis_def)
  have "starts_with_two_numbers (pts ! i)" if "i < length pts" for i
  proof (rule two_numbers_by_index)
    from that i0(2) show "py_index (pts ! i) 0 = Inr (lon_values ! i)" by simp
    from that i1(2) show "py_index (pts ! i) (Suc 0) = Inr (lat_values ! i)" by simp
    from numbers_all [OF nlo] that i0(1) show "is_number (lon_values ! i)"
      by (simp add: list_all_length)
    from numbers_all [OF nla] that i1(1) show "is_number (lat_values ! i)"
      by (simp add: list_all_length)
  qed
  then have "list_all starts_with_two_numbers pts"
    by (simp add: list_all_length)
  with pts ne show ?thesis by blast
qed


lemma with_tag_Inr: "with_tag tag r = Inr (t, d) \<Longrightarrow> t = tag \<and> r = Inr d"
  by (cases r) (simp_all add: with_tag_def)

lemma as_value_error_Inr: "as_value_error r = Inr d \<Longrightarrow> r = Inr d"
  by (cases r) (simp_all add: as_value_error_def)

lemma detect_success:
  assumes "detect_geometry_format cell = Inr (t, d)"
  obtains (empty) "t = ''empty''" "d = []"
    | (unknown) "t = ''unknown''" "d = []"
    | (geojson) s where "t = ''geojson''" "parse_geojson s = Inr d"
    | (wkt) s where "t = ''wkt''" "parse_wkt s = Inr d"
    | (json) s where "t = ''json''" "parse_json s = Inr d"
    | (coordinate_pair) s where "t = ''coordinate_pair''" "parse_coordinate_pair s = Inr d"
    | (coordinate_array) s where "t = ''coordinate_array''" "parse_coordinate_array s = Inr d"
proof (cases cell)
  case None
  from assms have "t = ''empty''" "d = []"
    unfolding None detect_branches(1) by simp_all
  then show ?thesis by (rule empty)
next
  case (Some raw)
  show ?thesis
  proof (cases "raw = []")
    case True
    from assms have "t = ''empty''" "d = []"
      unfolding Some True detect_branches(2) by simp_all
    then show ?thesis by (rule empty)
  next
    case False
    consider (g) "is_geojson (strip raw)"
      | (w) "\<not> is_geojson (strip raw)" "is_wkt (strip raw)"
      | (j) "\<not> is_geojson (strip raw)" "\<not> is_wkt (strip raw)" "is_json (strip raw)"
      | (p) "\<not> is_geojson (strip raw)" "\<not> is_wkt (strip raw)" "\<not> is_json (strip raw)"
            "is_coordinate_pair (strip raw)"
      | (a) "\<not> is_geojson (strip raw)" "\<not> is_wkt (strip raw)" "\<not> is_json (strip raw)"
            "\<not> is_coordinate_pair (strip raw)" "is_coordinate_array (strip raw)"
      | (u) "\<not> is_geojson (strip raw)" "\<not> is_wkt (strip raw)" "\<not> is_json (strip raw)"
            "\<not> is_coordinate_pair (strip raw)" "\<not> is_coordinate_array (strip raw)"
      by blast
    then show ?thesis
    proof cases
      case g
      from assms have "with_tag ''geojson'' (parse_geojson (strip raw)) = Inr (t, d)"
        unfolding Some detect_branches(3) [OF False g] .
      from with_tag_Inr [OF this] have "t = ''geojson''" "parse_geojson (strip raw) = Inr d"
        by simp_all
      then show ?thesis by (rule geojson)
    next
      case w
      from assms have "with_tag ''wkt'' (parse_wkt (strip raw)) = Inr (t, d)"
        unfolding Some detect_branches(4) [OF False w] .
      from with_tag_Inr [OF this] have "t = ''wkt''" "parse_wkt (strip raw) = Inr d"
        by simp_all
      then show ?thesis by (rule wkt)
    next
      case j
      from assms have "with_tag ''json'' (parse_json (strip raw)) = Inr (t, d)"
        unfolding Some detect_branches(5) [OF False j] .
      from with_tag_Inr [OF this] have "t = ''json''" "parse_json (strip raw) = Inr d"
        by simp_all
      then show ?thesis by (rule json)
    next
      case p
      from assms have "with_tag ''coordinate_pair'' (parse_coordinate_pair (strip raw)) = Inr (t, d)"
        unfolding Some detect_branches(6) [OF False p] .
      from with_tag_Inr [OF this]
      have "t = ''coordinate_pair''" "parse_coordinate_pair (strip raw) = Inr d"
        by simp_all
      then show ?thesis by (rule coordinate_pair)
    next
      case a
      from assms have "with_tag ''coordinate_array'' (parse_coordinate_array (strip raw)) = Inr (t, d)"
        unfolding Some detect_branches(7) [OF False a] .
      from with_tag_Inr [OF this]
      have "t = ''coordinate_array''" "parse_coordinate_array (strip raw) = Inr d"
        by simp_all
      then show ?thesis by (rule coordinate_array)
    next
      case u
      from assms have "t = ''unknown''" "d = []"
        unfolding Some detect_branches(8) [OF False u] by simp_all
      then show ?thesis by (rule unknown)
    qed
  qed
qed

lemma pair_points_are_pairs: "list_all2 pair_point ps pts \<Longrightarrow> list_all is_pair pts"
  by (induction rule: list_all2_induct) (auto simp: pair_point_def is_number_def)

lemma parse_wkt_shape:
  assumes "parse_wkt s = Inr d"
  shows "\<exists>pts. d = [(''coordinates'', JArr pts)] \<and> pts \<noteq> [] \<and> list_all is_pair pts"
proof -
  from parse_wkt_cases [of s] assms obtain pts where
    ne: "findall_pairs [] s \<noteq> []" and d: "d = [(''coordinates'', JArr pts)]" and
    l2: "list_all2 pair_point (findall_pairs [] s) pts"
    by auto
  from l2 have "length pts = length (findall_pairs [] s)" by (simp add: list_all2_lengthD)
  with ne have "pts \<noteq> []" by auto
  with d pair_points_are_pairs [OF l2] show ?thesis by blast
qed

lemma two_numbers_shape:
  assumes "(case ts of
              a # b # _ \<Rightarrow>
                bind_result (float_py a) (\<lambda>lon.
                bind_result (float_py b) (\<lambda>lat.
                Inr [(''coordinates'', JArr [JArr [JNum lon, JNum lat]])]))
            | _ \<Rightarrow> Inl ValueError) = Inr d"
  shows "\<exists>pts. d = [(''coordinates'', JArr pts)] \<and> pts \<noteq> [] \<and> list_all is_pair pts"
  using assms
  by (auto simp: bind_result_def is_number_def split: list.splits sum.splits)

lemma parse_coordinate_pair_shape:
  "parse_coordinate_pair s = Inr d \<Longrightarrow>
   \<exists>pts. d = [(''coordinates'', JArr pts)] \<and> pts \<noteq> [] \<and> list_all is_pair pts"
  unfolding parse_coordinate_pair_def
  by (rule two_numbers_shape [OF as_value_error_Inr])

lemma parse_coordinate_array_shape:
  "parse_coordinate_array s = Inr d \<Longrightarrow>
   \<exists>pts. d = [(''coordinates'', JArr pts)] \<and> pts \<noteq> [] \<and> list_all is_pair pts"
  unfolding parse_coordinate_array_def
  by (rule two_numbers_shape [OF as_value_error_Inr])

lemma parse_geojson_shape:
  assumes "parse_geojson s = Inr d"
  shows "\<exists>pts. d = [(''coordinates'', JArr pts)] \<and> list_all starts_with_number pts"
proof -
  from as_value_error_Inr [OF assms [unfolded parse_geojson_def]]
  obtain g pts where "geojson_points g = Inr pts" and d: "d = [(''coordinates'', JArr pts)]"
    by (auto simp: bind_result_def split: option.splits json.splits sum.splits)
  with geojson_points_shape show ?thesis by blast
qed

text \<open>
  Claim C5 says that a point set returned by a successful parse is never empty and holds
  points of exactly two numeric components. The GeoJSON walk takes a list that starts
  with a number whole, so a point with three components stays a list of three; and the
  tabular parser returns an empty point set for a GeoJSON text without coordinates,
  which its caller then counts as a row error. The GeoJSON tool computes bounds from
  the point of three components without complaint.
\<close>

theorem parser_points_counterexample:
  "detect_geometry_format (Some point3d_text) =
     Inr (''geojson'', [(''coordinates'', JArr [JArr [JNum 1, JNum 2, JNum 3]])]) \<and>
   \<not> is_pair (JArr [JNum 1, JNum 2, JNum 3]) \<and>
   detect_geometry_format (Some no_coordinates_text) =
     Inr (''geojson'', [(''coordinates'', JArr [])]) \<and>
   geojson_points point3d = Inr [JArr [JNum 1, JNum 2, JNum 3]] \<and>
   (\<exists>b. geojson_calculate_bounds point3d = Inr b)"
proof (intro conjI)
  show "detect_geometry_format (Some point3d_text) =
     Inr (''geojson'', [(''coordinates'', JArr [JArr [JNum 1, JNum 2, JNum 3]])])"
    by code_simp
  show "\<not> is_pair (JArr [JNum 1, JNum 2, JNum 3])"
    by simp
  show "detect_geometry_format (Some no_coordinates_text) =
     Inr (''geojson'', [(''coordinates'', JArr [])])"
    by code_simp
  show "geojson_points point3d = Inr [JArr [JNum 1, JNum 2, JNum 3]]"
    by code_simp
  have "geojson_calculate_bounds point3d =
      Inr \<lparr>center = (1, 2), width = 0, height = 0,
        bounds = \<lparr>min_lon = 1, max_lon = 1, min_lat = 2, max_lat = 2\<rparr>,
        corners = \<lparr>south_west = (1, 2), north_west = (1, 2),
                    north_east = (1, 2), south_east = (1, 2)\<rparr>,
        bbox = [1, 2, 1, 2]\<rparr>"
    by code_simp
  then show "\<exists>b. geojson_calculate_bounds point3d = Inr b" by blast
qed

text \<open>
  Claim C5, amended. When the tabular parser succeeds with the tag \<^verbatim>\<open>wkt\<close>,
  \<^verbatim>\<open>coordinate_pair\<close> or \<^verbatim>\<open>coordinate_array\<close>, the point set has at least one point and
  every point has exactly two numeric components. Every point the GeoJSON walk finds, in
  either tool, is a list that starts with a number. When \<^verbatim>\<open>calculate_bounds\<close> of the
  GeoJSON tool succeeds, the walk has found at least one point, and every point starts
  with two numbers.
\<close>

theorem parser_points_shape:
  "(detect_geometry_format cell = Inr (t, d) \<and>
      t \<in> set [''wkt'', ''coordinate_pair'', ''coordinate_array''] \<longrightarrow>
      (\<exists>pts. d = [(''coordinates'', JArr pts)] \<and> pts \<noteq> [] \<and> list_all is_pair pts)) \<and>
   (detect_geometry_format cell' = Inr (''geojson'', d') \<longrightarrow>
      (\<exists>pts. d' = [(''coordinates'', JArr pts)] \<and> list_all starts_with_number pts)) \<and>
   (geojson_points g = Inr ps \<longrightarrow> list_all starts_with_number ps) \<and>
   (geojson_calculate_bounds g' = Inr b \<longrightarrow>
      (\<exists>pts. geojson_points g' = Inr pts \<and> pts \<noteq> [] \<and> list_all starts_with_two_numbers pts))"
proof (intro conjI impI)
  assume a: "detect_geometry_format cell = Inr (t, d) \<and>
      t \<in> set [''wkt'', ''coordinate_pair'', ''coordinate_array'']"
  then have det: "detect_geometry_format cell = Inr (t, d)"
    and tag: "t \<in> set [''wkt'', ''coordinate_pair'', ''coordinate_array'']"
    by blast+
  from det show "\<exists>pts. d = [(''coordinates'', JArr pts)] \<and> pts \<noteq> [] \<and> list_all is_pair pts"
  proof (cases rule: detect_success)
    case empty
    with tag show ?thesis by simp
  next
    case unknown
    with tag show ?thesis by simp
  next
    case (geojson s)
    with tag show ?thesis by simp
  next
    case (wkt s)
    then show ?thesis using parse_wkt_shape by blast
  next
    case (json s)
    with tag show ?thesis by simp
  next
    case (coordinate_pair s)
    then show ?thesis using parse_coordinate_pair_shape by blast
  next
    case (coordinate_array s)
    then show ?thesis using parse_coordinate_array_shape by blast
  qed
next
  assume det: "detect_geometry_format cell' = Inr (''geojson'', d')"
  then show "\<exists>pts. d' = [(''coordinates'', JArr pts)] \<and> list_all starts_with_number pts"
  proof (cases rule: detect_success)
    case (geojson s)
    then show ?thesis using parse_geojson_shape by blast
  qed simp_all
next
  assume "geojson_points g = Inr ps"
  then show "list_all starts_with_number ps" by (rule geojson_points_shape)
next
  assume "geojson_calculate_bounds g' = Inr b"
  then show "\<exists>pts. geojson_points g' = Inr pts \<and> pts \<noteq> [] \<and> list_all starts_with_two_numbers pts"
    by (rule geojson_bounds_points)
qed

theorem parser_points_shape_witness:
  "detect_geometry_format (Some ''POINT(1 2)'') =
     Inr (''wkt'', [(''coordinates'', JArr [JArr [JNum 1, JNum 2]])]) \<and>
   (\<exists>pts. [(''coordinates'', JArr [JArr [JNum 1, JNum 2]])] = [(''coordinates'', JArr pts)] \<and>
      pts \<noteq> [] \<and> list_all is_pair pts) \<and>
   detect_geometry_format (Some point3d_text) =
     Inr (''geojson'', [(''coordinates'', JArr [JArr [JNum 1, JNum 2, JNum 3]])]) \<and>
   (\<exists>pts. [(''coordinates'', JArr [JArr [JNum 1, JNum 2, JNum 3]])] = [(''coordinates'', JArr pts)] \<and>
      list_all starts_with_number pts) \<and>
   geojson_points point3d = Inr [JArr [JNum 1, JNum 2, JNum 3]] \<and>
   list_all starts_with_number [JArr [JNum 1, JNum 2, JNum 3]] \<and>
   geojson_calculate_bounds point3d =
      Inr \<lparr>center = (1, 2), width = 0, height = 0,
        bounds = \<lparr>min_lon = 1, max_lon = 1, min_lat = 2, max_lat = 2\<rparr>,
        corners = \<lparr>south_west = (1, 2), north_west = (1, 2),
                    north_east = (1, 2), south_east = (1, 2)\<rparr>,
        bbox = [1, 2, 1, 2]\<rparr> \<and>
   (\<exists>pts. geojson_points point3d = Inr pts \<and> pts \<noteq> [] \<and> list_all starts_with_two_numbers pts)"
proof -
  have h1: "detect_geometry_format (Some ''POINT(1 2)'') =
     Inr (''wkt'', [(''coordinates'', JArr [JArr [JNum 1, JNum 2]])])"
    by code_simp
  have h1': "''wkt'' \<in> set [''wkt'', ''coordinate_pair'', ''coordinate_array'']"
    by simp
  have h2: "detect_geometry_format (Some point3d_text) =
     Inr (''geojson'', [(''coordinates'', JArr [JArr [JNum 1, JNum 2, JNum 3]])])"
    by code_simp
  have h3: "geojson_points point3d = Inr [JArr [JNum 1, JNum 2, JNum 3]]"
    by code_simp
  have h4: "geojson_calculate_bounds point3d =
      Inr \<lparr>center = (1, 2), width = 0, height = 0,
        bounds = \<lparr>min_lon = 1, max_lon = 1, min_lat = 2, max_lat = 2\<rparr>,
        corners = \<lparr>south_west = (1, 2), north_west = (1, 2),
                    north_east = (1, 2), south_east = (1, 2)\<rparr>,
        bbox = [1, 2, 1, 2]\<rparr>"
    by code_simp
  note th = parser_points_shape [of "Some ''POINT(1 2)''" "''wkt''"
      "[(''coordinates'', JArr [JArr [JNum 1, JNum 2]])]" "Some point3d_text"
      "[(''coordinates'', JArr [JArr [JNum 1, JNum 2, JNum 3]])]" point3d
      "[JArr [JNum 1, JNum 2, JNum 3]]" point3d]
  have c1: "\<exists>pts. [(''coordinates'', JArr [JArr [JNum 1, JNum 2]])] =
      [(''coordinates'', JArr pts)] \<and> pts \<noteq> [] \<and> list_all is_pair pts"
    by (rule th [THEN conjunct1, THEN mp, OF conjI [OF h1 h1']])
  have c2: "\<exists>pts. [(''coordinates'', JArr [JArr [JNum 1, JNum 2, JNum 3]])] =
      [(''coordinates'', JArr pts)] \<and> list_all starts_with_number pts"
    by (rule th [THEN conjunct2, THEN conjunct1, THEN mp, OF h2])
  have c3: "list_all starts_with_number [JArr [JNum 1, JNum 2, JNum 3]]"
    by (rule th [THEN conjunct2, THEN conjunct2, THEN conjunct1, THEN mp, OF h3])
  have c4: "\<exists>pts. geojson_points point3d = Inr pts \<and> pts \<noteq> [] \<and>
      list_all starts_with_two_numbers pts"
    by (rule th [THEN conjunct2, THEN conjunct2, THEN conjunct2, THEN mp, OF h4])
  show ?thesis
    by (intro conjI h1 c1 h2 c2 h3 c3 h4 c4)
qed

section \<open>A GeoJSON batch with a refused file\<close>

lemma geojson_validate_fold:
  "fold geojson_validate_step fs (vs, st) =
     (vs @ geojson_accepted fs,
      st\<lparr>error_files := error_files st @ geojson_refused fs,
         console := console st @ geojson_report fs\<rparr>)"
proof (induction fs arbitrary: vs st)
  case Nil
  show ?case
    by (simp add: geojson_accepted_def geojson_refused_def geojson_report_def)
next
  case (Cons f fs)
  show ?case
  proof (cases "validate_geojson_file f")
    case (Inl p)
    then have step: "geojson_validate_step f (vs, st) =
        (vs, st\<lparr>error_files := error_files st @ [(fpath f, p)],
                 console := console st @ [Checking (fname f), FormatError p]\<rparr>)"
      by (simp add: geojson_validate_step_def say_def)
    from Inl show ?thesis
      by (simp add: step Cons.IH geojson_accepted_def geojson_refused_def geojson_report_def
          geojson_verdict_def)
  next
    case (Inr d)
    then have step: "geojson_validate_step f (vs, st) =
        (vs @ [(f, d)], st\<lparr>console := console st @ [Checking (fname f), FormatOk]\<rparr>)"
      by (simp add: geojson_validate_step_def say_def)
    from Inr show ?thesis
      by (simp add: step Cons.IH geojson_accepted_def geojson_refused_def geojson_report_def
          geojson_verdict_def)
  qed
qed

lemma geojson_refused_member:
  "f \<in> set fs \<Longrightarrow> validate_geojson_file f = Inl p \<Longrightarrow> (fpath f, p) \<in> set (geojson_refused fs)"
  by (induction fs) (auto simp: geojson_refused_def)

lemma geojson_all_valid:
  "list_all (\<lambda>f. \<not> isl (validate_geojson_file f)) fs \<Longrightarrow> geojson_refused fs = []"
  by (induction fs) (auto simp: geojson_refused_def split: sum.splits)

lemma geojson_step_console:
  "\<exists>e. console (geojson_process_step writable item st) =
          console st @ [Processing (fname (fst item)), e] \<and> after_validation e"
  by (simp add: geojson_process_step_def Let_def say_def split: sum.split)

lemma geojson_process_console:
  "\<exists>es. console (fold (geojson_process_step writable) items st) = console st @ es \<and>
        list_all after_validation es"
proof (induction items arbitrary: st)
  case Nil
  show ?case by simp
next
  case (Cons item items)
  from geojson_step_console [of writable item st]
  obtain e where step: "console (geojson_process_step writable item st) =
      console st @ [Processing (fname (fst item)), e]" and e: "after_validation e"
    by blast
  from Cons.IH [of "geojson_process_step writable item st"] obtain es where
    es: "console (fold (geojson_process_step writable) items (geojson_process_step writable item st)) =
         console (geojson_process_step writable item st) @ es" "list_all after_validation es"
    by blast
  have "console (fold (geojson_process_step writable) (item # items) st) =
      console st @ ([Processing (fname (fst item)), e] @ es)"
    by (simp add: es(1) step)
  moreover have "list_all after_validation ([Processing (fname (fst item)), e] @ es)"
    using e es(2) by simp
  ultimately show ?case by blast
qed

text \<open>
  Claim C6. The GeoJSON tool validates every file of the batch before it processes any.
  If some file of the batch fails validation, the run ends with \<^verbatim>\<open>sys.exit(1)\<close>; no
  file has been written, marked as a success or counted; every refused file, with the
  reason, is in \<^verbatim>\<open>error_files\<close>; and the console shows, after the number of files
  found, the verdict on every file of the batch in turn, and then the stop report that
  lists the refused files. If no file fails validation, the run returns normally, and
  the console shows the verdict on every file before the first line about processing.
\<close>

theorem geojson_batch_fail_closed:
  "(f \<in> set files \<and> validate_geojson_file f = Inl p \<longrightarrow>
      (\<exists>st'. geojson_process_directory writable files st = (Exit 1, st') \<and>
         written st' = written st \<and>
         success_files st' = success_files st \<and>
         processed_count st' = processed_count st \<and>
         error_files st' = error_files st @ geojson_refused files \<and>
         (fpath f, p) \<in> set (error_files st') \<and>
         console st' =
           console st @ [Found (length files)] @ geojson_report files @
           Stopped # map (\<lambda>(q, m). StoppedFile q m) (error_files st'))) \<and>
   (files' \<noteq> [] \<and> error_files st0 = [] \<and>
    list_all (\<lambda>f. \<not> isl (validate_geojson_file f)) files' \<longrightarrow>
      (\<exists>st' es. geojson_process_directory writable' files' st0 = (Returned, st') \<and>
         console st' =
           console st0 @ [Found (length files')] @ geojson_report files' @ AllValid # es \<and>
         list_all after_validation es))"
proof (intro conjI impI)
  assume "f \<in> set files \<and> validate_geojson_file f = Inl p"
  then have f: "f \<in> set files" and p: "validate_geojson_file f = Inl p" by blast+
  from f have ne: "files \<noteq> []" by auto
  from f p have mem: "(fpath f, p) \<in> set (geojson_refused files)"
    by (rule geojson_refused_member)
  then have bad: "geojson_refused files \<noteq> []" by auto
  let ?st1 = "(say [Found (length files)] st)
      \<lparr>error_files := error_files (say [Found (length files)] st) @ geojson_refused files,
        console := console (say [Found (length files)] st) @ geojson_report files\<rparr>"
  have run: "geojson_process_directory writable files st = (Exit 1, stop_report ?st1)"
    using ne bad
    by (simp add: geojson_process_directory_def geojson_validate_fold say_def)
  show "\<exists>st'. geojson_process_directory writable files st = (Exit 1, st') \<and>
         written st' = written st \<and>
         success_files st' = success_files st \<and>
         processed_count st' = processed_count st \<and>
         error_files st' = error_files st @ geojson_refused files \<and>
         (fpath f, p) \<in> set (error_files st') \<and>
         console st' =
           console st @ [Found (length files)] @ geojson_report files @
           Stopped # map (\<lambda>(q, m). StoppedFile q m) (error_files st')"
    unfolding run using mem
    by (simp add: stop_report_def say_def)
next
  assume "files' \<noteq> [] \<and> error_files st0 = [] \<and>
    list_all (\<lambda>f. \<not> isl (validate_geojson_file f)) files'"
  then have ne: "files' \<noteq> []" and e0: "error_files st0 = []"
    and ok: "list_all (\<lambda>f. \<not> isl (validate_geojson_file f)) files'"
    by blast+
  from geojson_all_valid [OF ok] have r: "geojson_refused files' = []" .
  let ?st2 = "say [AllValid]
      ((say [Found (length files')] st0)
        \<lparr>error_files := error_files (say [Found (length files')] st0) @ [],
          console := console (say [Found (length files')] st0) @ geojson_report files'\<rparr>)"
  have run: "geojson_process_directory writable' files' st0 =
      (Returned, print_summary
         (fold (geojson_process_step writable') (geojson_accepted files') ?st2))"
    using ne e0
    by (simp add: geojson_process_directory_def geojson_validate_fold r say_def)
  from geojson_process_console [of writable' "geojson_accepted files'" ?st2]
  obtain es where es:
    "console (fold (geojson_process_step writable') (geojson_accepted files') ?st2) =
       console ?st2 @ es" "list_all after_validation es"
    by blast
  let ?fin = "fold (geojson_process_step writable') (geojson_accepted files') ?st2"
  have "console (print_summary ?fin) =
      console st0 @ [Found (length files')] @ geojson_report files' @
      AllValid # (es @ [Summary (processed_count ?fin) (success_files ?fin) (error_files ?fin)])"
    using es(1) by (simp add: print_summary_def say_def)
  moreover have "list_all after_validation
      (es @ [Summary (processed_count ?fin) (success_files ?fin) (error_files ?fin)])"
    using es(2) by simp
  ultimately show "\<exists>st' es. geojson_process_directory writable' files' st0 = (Returned, st') \<and>
         console st' =
           console st0 @ [Found (length files')] @ geojson_report files' @ AllValid # es \<and>
         list_all after_validation es"
    unfolding run by blast
qed

theorem geojson_batch_fail_closed_witness:
  "geojson_file ''b'' (Decoded (JArr [])) \<in> set scenario_e \<and>
   validate_geojson_file (geojson_file ''b'' (Decoded (JArr []))) = Inl NotAnObject \<and>
   (\<exists>st'. geojson_process_directory (\<lambda>n. True) scenario_e init_state = (Exit 1, st') \<and>
      written st' = [] \<and>
      console st' =
        [Found 3, Checking ''a.geojson'', FormatOk, Checking ''b.geojson'',
         FormatError NotAnObject, Checking ''c.geojson'', FormatOk, Stopped,
         StoppedFile ''/data/b.geojson'' NotAnObject]) \<and>
   list_all (\<lambda>f. \<not> isl (validate_geojson_file f))
     [geojson_file ''a'' (Decoded (JObj scenario_a))] \<and>
   (\<exists>st' es. geojson_process_directory (\<lambda>n. True)
                [geojson_file ''a'' (Decoded (JObj scenario_a))] init_state = (Returned, st') \<and>
      console st' = [Found 1, Checking ''a.geojson'', FormatOk, AllValid] @ es \<and>
      list_all after_validation es)"
proof -
  let ?a = "geojson_file ''a'' (Decoded (JObj scenario_a))"
  have h1: "geojson_file ''b'' (Decoded (JArr [])) \<in> set scenario_e"
    by (simp add: scenario_e_def)
  have h2: "validate_geojson_file (geojson_file ''b'' (Decoded (JArr []))) = Inl NotAnObject"
    by code_simp
  have va: "validate_geojson_file ?a = Inr scenario_a"
    by code_simp
  then have h3: "list_all (\<lambda>f. \<not> isl (validate_geojson_file f)) [?a]"
    by simp
  have h4: "[?a] \<noteq> []" by simp
  have h5: "error_files (init_state :: json run_state) = []"
    by (simp add: init_state_def)
  have refused: "geojson_refused scenario_e = [(''/data/b.geojson'', NotAnObject)]"
    by code_simp
  have report: "geojson_report scenario_e =
      [Checking ''a.geojson'', FormatOk, Checking ''b.geojson'', FormatError NotAnObject,
       Checking ''c.geojson'', FormatOk]"
    by code_simp
  have report_a: "geojson_report [?a] = [Checking ''a.geojson'', FormatOk]"
    by code_simp
  have len: "length scenario_e = 3"
    by (simp add: scenario_e_def)
  note th = geojson_batch_fail_closed [of "geojson_file ''b'' (Decoded (JArr []))" scenario_e
      NotAnObject "\<lambda>n. True" init_state "[?a]" init_state "\<lambda>n. True"]
  from th [THEN conjunct1, THEN mp, OF conjI [OF h1 h2]]
  obtain st' where
    run: "geojson_process_directory (\<lambda>n. True) scenario_e init_state = (Exit 1, st')" and
    w: "written st' = written (init_state :: json run_state)" and
    e: "error_files st' = error_files (init_state :: json run_state) @ geojson_refused scenario_e" and
    c: "console st' =
          console (init_state :: json run_state) @ [Found (length scenario_e)] @
          geojson_report scenario_e @
          Stopped # map (\<lambda>(q, m). StoppedFile q m) (error_files st')"
    by blast
  from w have w': "written st' = []" by (simp add: init_state_def)
  from e have e': "error_files st' = [(''/data/b.geojson'', NotAnObject)]"
    by (simp add: init_state_def refused)
  have c': "console st' =
        [Found 3, Checking ''a.geojson'', FormatOk, Checking ''b.geojson'',
         FormatError NotAnObject, Checking ''c.geojson'', FormatOk, Stopped,
         StoppedFile ''/data/b.geojson'' NotAnObject]"
    unfolding c e' report len by (simp add: init_state_def)
  from run w' c' have c1: "\<exists>st'. geojson_process_directory (\<lambda>n. True) scenario_e init_state =
      (Exit 1, st') \<and> written st' = [] \<and>
      console st' =
        [Found 3, Checking ''a.geojson'', FormatOk, Checking ''b.geojson'',
         FormatError NotAnObject, Checking ''c.geojson'', FormatOk, Stopped,
         StoppedFile ''/data/b.geojson'' NotAnObject]"
    by blast
  from th [THEN conjunct2, THEN mp, OF conjI [OF h4 conjI [OF h5 h3]]]
  have c2: "\<exists>st' es. geojson_process_directory (\<lambda>n. True) [?a] init_state = (Returned, st') \<and>
      console st' = [Found 1, Checking ''a.geojson'', FormatOk, AllValid] @ es \<and>
      list_all after_validation es"
    by (simp add: report_a init_state_def)
  from h1 h2 c1 h3 c2 show ?thesis by (intro conjI)
qed

section \<open>A tabular batch with a refused file\<close>

lemma excel_validate_fold:
  "fold (excel_validate_step field) fs (vs, st) =
     (vs @ excel_accepted field fs,
      st\<lparr>error_files := error_files st @ excel_refused field fs,
         console := console st @ excel_report field fs\<rparr>)"
proof (induction fs arbitrary: vs st)
  case Nil
  show ?case
    by (simp add: excel_accepted_def excel_refused_def excel_report_def)
next
  case (Cons f fs)
  show ?case
  proof (cases "validate_excel_file field f")
    case None
    then have step: "excel_validate_step field f (vs, st) =
        (vs @ [f], st\<lparr>console := console st @ [Checking (fname f), FormatOk]\<rparr>)"
      by (simp add: excel_validate_step_def say_def)
    from None show ?thesis
      by (simp add: step Cons.IH excel_accepted_def excel_refused_def excel_report_def
          excel_verdict_def)
  next
    case (Some p)
    then have step: "excel_validate_step field f (vs, st) =
        (vs, st\<lparr>error_files := error_files st @ [(fpath f, p)],
                 console := console st @ [Checking (fname f), FormatError p]\<rparr>)"
      by (simp add: excel_validate_step_def say_def)
    from Some show ?thesis
      by (simp add: step Cons.IH excel_accepted_def excel_refused_def excel_report_def
          excel_verdict_def)
  qed
qed

lemma excel_refused_member:
  "f \<in> set fs \<Longrightarrow> validate_excel_file field f = Some p \<Longrightarrow>
   (fpath f, p) \<in> set (excel_refused field fs)"
  by (induction fs) (auto simp: excel_refused_def)

lemma excel_all_valid:
  "list_all (\<lambda>f. validate_excel_file field f = None) fs \<Longrightarrow>
   excel_refused field fs = [] \<and> excel_accepted field fs = fs"
  by (induction fs) (simp_all add: excel_refused_def excel_accepted_def)

lemma process_valid_file:
  assumes "validate_excel_file field f = None"
  shows "(writable (excel_output_name f) \<and>
           (\<exists>res. process_excel_file writable field f = Inr (excel_output_name f, res))) \<or>
         (\<not> writable (excel_output_name f) \<and> process_excel_file writable field f = Inl OSError)"
proof -
  from assms obtain df where df: "fcontent f = Some df" "field \<in> set (columns df)"
    by (auto simp: validate_excel_file_def split: if_splits option.splits)
  then show ?thesis
    by (simp add: process_excel_file_def excel_output_name_def Let_def)
qed


lemma excel_process_fold:
  assumes "list_all (\<lambda>f. validate_excel_file field f = None) fs"
  shows "success_files (fold (excel_process_step writable field) fs st) =
           success_files st @ map fname (filter (\<lambda>f. writable (excel_output_name f)) fs) \<and>
         error_files (fold (excel_process_step writable field) fs st) =
           error_files st @
           map (\<lambda>f. (fpath f, Failed OSError)) (filter (\<lambda>f. \<not> writable (excel_output_name f)) fs) \<and>
         map fst (written (fold (excel_process_step writable field) fs st)) =
           map fst (written st) @
           map excel_output_name (filter (\<lambda>f. writable (excel_output_name f)) fs) \<and>
         processed_count (fold (excel_process_step writable field) fs st) =
           processed_count st + length (filter (\<lambda>f. writable (excel_output_name f)) fs)"
  using assms
proof (induction fs arbitrary: st)
  case Nil
  show ?case by simp
next
  case (Cons f fs)
  from Cons.prems have v: "validate_excel_file field f = None"
    and rest: "list_all (\<lambda>f. validate_excel_file field f = None) fs"
    by simp_all
  note IH = Cons.IH [OF rest]
  from process_valid_file [OF v, of writable] show ?case
  proof
    assume ok: "writable (excel_output_name f) \<and>
        (\<exists>res. process_excel_file writable field f = Inr (excel_output_name f, res))"
    then obtain res where res: "process_excel_file writable field f = Inr (excel_output_name f, res)"
      by blast
    have step: "excel_process_step writable field f st =
        st\<lparr>written := written st @ [(excel_output_name f, res)],
           success_files := success_files st @ [fname f],
           processed_count := processed_count st + 1,
           console := console st @ [Processing (fname f), Generated (excel_output_name f)]\<rparr>"
      by (simp add: excel_process_step_def res say_def)
    from ok show ?thesis
      by (simp add: step IH)
  next
    assume bad: "\<not> writable (excel_output_name f) \<and>
        process_excel_file writable field f = Inl OSError"
    then have step: "excel_process_step writable field f st =
        st\<lparr>error_files := error_files st @ [(fpath f, Failed OSError)],
           console := console st @ [Processing (fname f), FileError (fname f) (Failed OSError)]\<rparr>"
      by (simp add: excel_process_step_def say_def)
    from bad show ?thesis
      by (simp add: step IH)
  qed
qed

text \<open>
  Claim C4 says that in tabular batch mode a file-level error in one file aborts only
  that file. \<^verbatim>\<open>GeometryProcessor.process_directory\<close> validates every file first, as
  the GeoJSON tool does, and calls \<^verbatim>\<open>sys.exit(1)\<close> when a file has been refused: with
  one file that lacks the geometry column and one valid file, the run ends with exit
  code 1 and the valid file is not processed.
\<close>

theorem excel_batch_counterexample:
  "validate_excel_file ''geom'' (csv_file ''b'' sheet_without_geom) = Some MissingField \<and>
   validate_excel_file ''geom'' (csv_file ''a'' sheet_with_geom) = None \<and>
   excel_process_directory (\<lambda>n. True) ''geom''
       [csv_file ''b'' sheet_without_geom, csv_file ''a'' sheet_with_geom] init_state =
     (Exit 1,
      \<lparr>processed_count = 0, error_files = [(''/data/b.csv'', MissingField)],
       success_files = [], written = [],
       console = [Found 2, Checking ''b.csv'', FormatError MissingField,
                  Checking ''a.csv'', FormatOk, Stopped,
                  StoppedFile ''/data/b.csv'' MissingField]\<rparr>)"
  by code_simp

text \<open>
  Claim C4, amended. In tabular batch mode every file is validated before any is
  processed. If validation refuses a file of the batch (unsupported extension, missing
  geometry column, an empty or unreadable file), the run ends with exit code 1: nothing
  has been written, marked as a success or counted, and the refused file stands in
  \<^verbatim>\<open>error_files\<close>. If every file passes validation, the run returns normally; a file
  whose output cannot be written is recorded in \<^verbatim>\<open>error_files\<close> and the other files
  are still processed and written, in order.
\<close>

theorem excel_batch_validates_first:
  "(f \<in> set files \<and> validate_excel_file field f = Some p \<longrightarrow>
      (\<exists>st'. excel_process_directory writable field files st = (Exit 1, st') \<and>
         written st' = written st \<and> success_files st' = success_files st \<and>
         processed_count st' = processed_count st \<and>
         (fpath f, p) \<in> set (error_files st'))) \<and>
   (files' \<noteq> [] \<and> error_files st0 = [] \<and>
    list_all (\<lambda>f. validate_excel_file field' f = None) files' \<longrightarrow>
      (\<exists>st'. excel_process_directory writable' field' files' st0 = (Returned, st') \<and>
         success_files st' =
           success_files st0 @
           map fname (filter (\<lambda>f. writable' (excel_output_name f)) files') \<and>
         map fst (written st') =
           map fst (written st0) @
           map excel_output_name (filter (\<lambda>f. writable' (excel_output_name f)) files') \<and>
         error_files st' =
           map (\<lambda>f. (fpath f, Failed OSError))
             (filter (\<lambda>f. \<not> writable' (excel_output_name f)) files')))"
proof (intro conjI impI)
  assume "f \<in> set files \<and> validate_excel_file field f = Some p"
  then have f: "f \<in> set files" and p: "validate_excel_file field f = Some p" by blast+
  from f have ne: "files \<noteq> []" by auto
  from f p have mem: "(fpath f, p) \<in> set (excel_refused field files)"
    by (rule excel_refused_member)
  then have bad: "excel_refused field files \<noteq> []" by auto
  let ?st1 = "(say [Found (length files)] st)
      \<lparr>error_files := error_files (say [Found (length files)] st) @ excel_refused field files,
        console := console (say [Found (length files)] st) @ excel_report field files\<rparr>"
  have run: "excel_process_directory writable field files st = (Exit 1, stop_report ?st1)"
    using ne bad
    by (simp add: excel_process_directory_def excel_validate_fold say_def)
  show "\<exists>st'. excel_process_directory writable field files st = (Exit 1, st') \<and>
         written st' = written st \<and> success_files st' = success_files st \<and>
         processed_count st' = processed_count st \<and>
         (fpath f, p) \<in> set (error_files st')"
    unfolding run using mem
    by (simp add: stop_report_def say_def)
next
  assume a: "files' \<noteq> [] \<and> error_files st0 = [] \<and>
    list_all (\<lambda>f. validate_excel_file field' f = None) files'"
  then have ne: "files' \<noteq> []" and e0: "error_files st0 = []"
    and ok: "list_all (\<lambda>f. validate_excel_file field' f = None) files'"
    by blast+
  from excel_all_valid [OF ok] have r: "excel_refused field' files' = []"
    and acc: "excel_accepted field' files' = files'"
    by blast+
  let ?st2 = "say [AllValid]
      ((say [Found (length files')] st0)
        \<lparr>error_files := error_files (say [Found (length files')] st0) @ [],
          console := console (say [Found (length files')] st0) @ excel_report field' files'\<rparr>)"
  have run: "excel_process_directory writable' field' files' st0 =
      (Returned, print_summary (fold (excel_process_step writable' field') files' ?st2))"
    using ne e0
    by (simp add: excel_process_directory_def excel_validate_fold r acc say_def)
  from excel_process_fold [OF ok, of writable' ?st2] e0
  show "\<exists>st'. excel_process_directory writable' field' files' st0 = (Returned, st') \<and>
         success_files st' =
           success_files st0 @
           map fname (filter (\<lambda>f. writable' (excel_output_name f)) files') \<and>
         map fst (written st') =
           map fst (written st0) @
           map excel_output_name (filter (\<lambda>f. writable' (excel_output_name f)) files') \<and>
         error_files st' =
           map (\<lambda>f. (fpath f, Failed OSError))
             (filter (\<lambda>f. \<not> writable' (excel_output_name f)) files')"
    unfolding run
    by (simp add: print_summary_def say_def)
qed

theorem excel_batch_validates_first_witness:
  "csv_file ''b'' sheet_without_geom
     \<in> set [csv_file ''b'' sheet_without_geom, csv_file ''a'' sheet_with_geom] \<and>
   validate_excel_file ''geom'' (csv_file ''b'' sheet_without_geom) = Some MissingField \<and>
   (\<exists>st'. excel_process_directory (\<lambda>n. True) ''geom''
             [csv_file ''b'' sheet_without_geom, csv_file ''a'' sheet_with_geom] init_state
           = (Exit 1, st') \<and>
          written st' = [] \<and> success_files st' = []) \<and>
   list_all (\<lambda>f. validate_excel_file ''geom'' f = None)
     [csv_file ''a'' sheet_with_geom, csv_file ''c'' sheet_with_geom] \<and>
   (\<exists>st'. excel_process_directory (\<lambda>n. n \<noteq> ''a_with_bounds.csv'') ''geom''
             [csv_file ''a'' sheet_with_geom, csv_file ''c'' sheet_with_geom] init_state
           = (Returned, st') \<and>
          success_files st' = [''c.csv''] \<and>
          map fst (written st') = [''c_with_bounds.csv''] \<and>
          error_files st' = [(''/data/a.csv'', Failed OSError)])"
proof -
  let ?b = "csv_file ''b'' sheet_without_geom"
  let ?a = "csv_file ''a'' sheet_with_geom"
  let ?c = "csv_file ''c'' sheet_with_geom"
  let ?w = "\<lambda>n. n \<noteq> ''a_with_bounds.csv''"
  have h1: "?b \<in> set [?b, ?a]" by simp
  have h2: "validate_excel_file ''geom'' ?b = Some MissingField" by code_simp
  have va: "validate_excel_file ''geom'' ?a = None" by code_simp
  have vc: "validate_excel_file ''geom'' ?c = None" by code_simp
  from va vc have h3: "list_all (\<lambda>f. validate_excel_file ''geom'' f = None) [?a, ?c]"
    by simp
  have h4: "[?a, ?c] \<noteq> []" by simp
  have h5: "error_files (init_state :: sheet_result run_state) = []"
    by (simp add: init_state_def)
  note th = excel_batch_validates_first [of ?b "[?b, ?a]" "''geom''" MissingField
      "\<lambda>n. True" init_state "[?a, ?c]" init_state "''geom''" ?w]
  from th [THEN conjunct1, THEN mp, OF conjI [OF h1 h2]]
  have c1: "\<exists>st'. excel_process_directory (\<lambda>n. True) ''geom'' [?b, ?a] init_state = (Exit 1, st') \<and>
          written st' = [] \<and> success_files st' = []"
    by (auto simp: init_state_def)
  have names: "excel_output_name ?a = ''a_with_bounds.csv''"
    "excel_output_name ?c = ''c_with_bounds.csv''"
    "fname ?a = ''a.csv''" "fname ?c = ''c.csv''" "fpath ?a = ''/data/a.csv''"
    by (simp_all add: excel_output_name_def csv_file_def)
  from th [THEN conjunct2, THEN mp, OF conjI [OF h4 conjI [OF h5 h3]]]
  have c2: "\<exists>st'. excel_process_directory ?w ''geom'' [?a, ?c] init_state = (Returned, st') \<and>
          success_files st' = [''c.csv''] \<and>
          map fst (written st') = [''c_with_bounds.csv''] \<and>
          error_files st' = [(''/data/a.csv'', Failed OSError)]"
    by (simp add: names init_state_def)
  from h1 h2 c1 h3 c2 show ?thesis by (intro conjI)
qed

end
